theory Spec2Isabelle
  imports Main
begin

section \<open>Cart totals: the values the component reads\<close>

text \<open>
  The component \<open>CartTotals\<close> of \<open>modules/common/components/cart-totals/index.tsx\<close>
  reads six monetary fields and the region of a cart or an order, hands every amount to
  the external \<open>formatAmount\<close>, and returns a tree of React elements.

  A monetary field has the TypeScript type \<open>number | null | undefined\<close>. Amounts are
  integers of the currency's minor unit, so a finite number is an \<open>int\<close>; the values of
  \<open>number\<close> that are no amount (\<open>NaN\<close> and the two infinities) are kept, since the
  component tests numbers for truthiness. JavaScript's negative zero is read as \<open>Num 0\<close>:
  both zeros are falsy, and \<open>-0 || 0\<close> is \<open>0\<close>.
\<close>

datatype number = Num int | NaN | PosInfinity | NegInfinity

datatype field = Undefined | Null | Number number

text \<open>JavaScript's \<open>ToBoolean\<close> on such a value, which \<open>!!x\<close> and \<open>x || y\<close> apply.\<close>

fun truthy :: "field \<Rightarrow> bool" where
  "truthy Undefined = False"
| "truthy Null = False"
| "truthy (Number (Num n)) = (n \<noteq> 0)"
| "truthy (Number NaN) = False"
| "truthy (Number PosInfinity) = True"
| "truthy (Number NegInfinity) = True"

text \<open>\<open>x || y\<close> with a number on the right: the left operand when it is truthy.\<close>

fun or_else :: "field \<Rightarrow> number \<Rightarrow> number" where
  "or_else (Number n) y = (if truthy (Number n) then n else y)"
| "or_else Undefined y = y"
| "or_else Null y = y"

text \<open>
  \<open>x ?? y\<close>, the nullish coalescing of the specification's amount resolution rule
  (\<open>effective(amount) = amount ?? 0\<close>). The component does not use it; it is defined
  from the specification's words to be compared with \<open>or_else\<close>.
\<close>

fun nullish_coalesce :: "field \<Rightarrow> number \<Rightarrow> number" where
  "nullish_coalesce (Number n) y = n"
| "nullish_coalesce Undefined y = y"
| "nullish_coalesce Null y = y"

text \<open>The argument object of \<open>formatAmount\<close>, and the fields of \<open>data\<close> the component reads.\<close>

record 'r format_args =
  amount :: number
  region :: 'r
  includeTaxes :: bool

record 'r cart =
  subtotal :: field
  discount_total :: field
  gift_card_total :: field
  tax_total :: field
  shipping_total :: field
  total :: field
  region :: 'r

section \<open>The external formatter\<close>

text \<open>
  \<open>formatAmount\<close> is imported from \<open>@lib/util/prices\<close> and is a parameter here. A call of
  a JavaScript function may read and change the world outside the component and may
  throw: a formatter takes the world \<open>'w\<close> and returns the string or the thrown value
  \<open>'e\<close>, with the world after the call. A thrown value ends the evaluation of the
  component, which has no \<open>try\<close>.
\<close>

type_synonym ('w, 'e, 'a) js = "'w \<Rightarrow> ('e + 'a) \<times> 'w"

type_synonym ('r, 'w, 'e) formatter = "'r format_args \<Rightarrow> ('w, 'e, string) js"

definition returnE :: "'a \<Rightarrow> ('w, 'e, 'a) js" where
  "returnE a w = (Inr a, w)"

definition bindE :: "('w, 'e, 'a) js \<Rightarrow> ('a \<Rightarrow> ('w, 'e, 'b) js) \<Rightarrow> ('w, 'e, 'b) js" where
  "bindE m f w = (case m w of (Inl e, w') \<Rightarrow> (Inl e, w') | (Inr a, w') \<Rightarrow> f a w')"

section \<open>The element tree\<close>

text \<open>
  A React element has a type (a host tag or a component), props and children. A child is
  an element, a string, or a boolean (\<open>!!x && e\<close> is \<open>false\<close> when \<open>x\<close> is falsy, and
  React renders no node for a boolean).
\<close>

datatype propval = Str string | Numv number

datatype jsx = Element string "(string \<times> propval) list" "jsx list" | Text string | Boolean bool

section \<open>The component\<close>

text \<open>
  \<open>getAmount\<close> (lines 52 to 58): one call of the formatter, with \<open>amount || 0\<close>, the
  region of \<open>data\<close> and \<open>includeTaxes: false\<close>.
\<close>

definition getAmount :: "('r, 'w, 'e) formatter \<Rightarrow> 'r cart \<Rightarrow> field \<Rightarrow> ('w, 'e, string) js" where
  "getAmount formatAmount data amount_in =
     formatAmount \<lparr>amount = or_else amount_in (Num 0), region = region data, includeTaxes = False\<rparr>"

text \<open>
  The returned JSX (lines 60 to 124). JavaScript evaluates the props and children of the
  expression from left to right, so the calls of \<open>getAmount\<close> happen in the order of the
  rows; the call for the discount and for the gift card happens only behind its
  \<open>!!x &&\<close> guard. Each call is bound where the source has it, and the element around it
  is built from its result.
\<close>

definition CartTotals :: "('r, 'w, 'e) formatter \<Rightarrow> 'r cart \<Rightarrow> ('w, 'e, jsx) js" where
  "CartTotals formatAmount data =
     bindE (getAmount formatAmount data (subtotal data)) (\<lambda>subtotal_text.
     bindE (if truthy (discount_total data)
            then bindE (getAmount formatAmount data (discount_total data)) (\<lambda>discount_text.
                 returnE (Element ''div'' [(''className'', Str ''flex items-center justify-between'')]
                   [Element ''span'' [] [Text ''Discount''],
                    Element ''span''
                      [(''className'', Str ''text-ui-fg-interactive''),
                       (''data-testid'', Str ''cart-discount''),
                       (''data-value'', Numv (or_else (discount_total data) (Num 0)))]
                      [Text ''- '', Text discount_text]]))
            else returnE (Boolean False)) (\<lambda>discount_row.
     bindE (getAmount formatAmount data (shipping_total data)) (\<lambda>shipping_text.
     bindE (getAmount formatAmount data (tax_total data)) (\<lambda>tax_text.
     bindE (if truthy (gift_card_total data)
            then bindE (getAmount formatAmount data (gift_card_total data)) (\<lambda>gift_card_text.
                 returnE (Element ''div'' [(''className'', Str ''flex items-center justify-between'')]
                   [Element ''span'' [] [Text ''Gift card''],
                    Element ''span''
                      [(''className'', Str ''text-ui-fg-interactive''),
                       (''data-testid'', Str ''cart-gift-card-amount''),
                       (''data-value'', Numv (or_else (gift_card_total data) (Num 0)))]
                      [Text ''- '', Text gift_card_text]]))
            else returnE (Boolean False)) (\<lambda>gift_card_row.
     bindE (getAmount formatAmount data (total data)) (\<lambda>total_text.
     returnE (Element ''div'' []
       [Element ''div'' [(''className'', Str ''flex flex-col gap-y-2 txt-medium text-ui-fg-subtle '')]
          [Element ''div'' [(''className'', Str ''flex items-center justify-between'')]
             [Element ''span'' [(''className'', Str ''flex gap-x-1 items-center'')]
                [Text ''Subtotal'',
                 Element ''Tooltip'' [(''content'', Str ''Cart total excluding shipping and taxes.'')]
                   [Element ''InformationCircleSolid'' [(''color'', Str ''var(--fg-muted)'')] []]],
              Element ''span''
                [(''data-testid'', Str ''cart-subtotal''),
                 (''data-value'', Numv (or_else (subtotal data) (Num 0)))]
                [Text subtotal_text]],
           discount_row,
           Element ''div'' [(''className'', Str ''flex items-center justify-between'')]
             [Element ''span'' [] [Text ''Shipping''],
              Element ''span''
                [(''data-testid'', Str ''cart-shipping''),
                 (''data-value'', Numv (or_else (shipping_total data) (Num 0)))]
                [Text shipping_text]],
           Element ''div'' [(''className'', Str ''flex justify-between'')]
             [Element ''span'' [(''className'', Str ''flex gap-x-1 items-center '')] [Text ''Taxes''],
              Element ''span''
                [(''data-testid'', Str ''cart-taxes''),
                 (''data-value'', Numv (or_else (tax_total data) (Num 0)))]
                [Text tax_text]],
           gift_card_row],
        Element ''div'' [(''className'', Str ''h-px w-full border-b border-gray-200 my-4'')] [],
        Element ''div''
          [(''className'', Str ''flex items-center justify-between text-ui-fg-base mb-2 txt-medium '')]
          [Element ''span'' [] [Text ''Total''],
           Element ''span''
             [(''className'', Str ''txt-xlarge-plus''),
              (''data-testid'', Str ''cart-total''),
              (''data-value'', Numv (or_else (total data) (Num 0)))]
             [Text total_text]],
        Element ''div'' [(''className'', Str ''h-px w-full border-b border-gray-200 mt-4'')] []])))))))"

section \<open>Reading the rendered rows\<close>

text \<open>
  A row of the breakdown is an element with two element children, a label and a value
  that carries \<open>data-testid\<close> and \<open>data-value\<close>. \<open>rows_of\<close> collects the rows of a tree
  in document order, as a test would query them: the label's text, the test id, the raw
  value and the text shown. \<open>own_text\<close> is the text an element holds directly.
\<close>

record row =
  label :: string
  testid :: string
  raw :: number
  shown :: string

fun own_text :: "jsx \<Rightarrow> string" where
  "own_text (Element t ps cs) = concat (map (\<lambda>c. case c of Text s \<Rightarrow> s | _ \<Rightarrow> []) cs)"
| "own_text (Text s) = s"
| "own_text (Boolean b) = []"

fun rows_of :: "jsx \<Rightarrow> row list" where
  "rows_of (Element t ps cs) =
     (case cs of
        [Element lt lps lcs, Element vt vps vcs] \<Rightarrow>
          (case (map_of vps ''data-testid'', map_of vps ''data-value'') of
             (Some (Str tid), Some (Numv v)) \<Rightarrow>
               [\<lparr>label = own_text (Element lt lps lcs), testid = tid, raw = v,
                 shown = own_text (Element vt vps vcs)\<rparr>]
           | _ \<Rightarrow> concat (map rows_of cs))
      | _ \<Rightarrow> concat (map rows_of cs))"
| "rows_of (Text s) = []"
| "rows_of (Boolean b) = []"

section \<open>Observing the calls of the formatter\<close>

text \<open>
  \<open>traced formatAmount\<close> behaves as \<open>formatAmount\<close> and appends the argument of every
  call to a log kept beside the world. \<open>calls\<close> is the log after the component ran.
\<close>

definition traced ::
  "('r, 'w, 'e) formatter \<Rightarrow> ('r, 'r format_args list \<times> 'w, 'e) formatter" where
  "traced formatAmount a = (\<lambda>(log, w). case formatAmount a w of (r, w') \<Rightarrow> (r, (log @ [a], w')))"

definition calls :: "('r, 'w, 'e) formatter \<Rightarrow> 'r cart \<Rightarrow> 'w \<Rightarrow> 'r format_args list" where
  "calls formatAmount data w = fst (snd (CartTotals (traced formatAmount) data ([], w)))"

text \<open>
  What the specification asks of the formatter: \<open>never_throws\<close>, it returns a string for
  every argument in every world; \<open>transparent\<close>, its result for an argument does not
  depend on the world (referential transparency).
\<close>

definition never_throws :: "('r, 'w, 'e) formatter \<Rightarrow> bool" where
  "never_throws formatAmount = (\<forall>a w. \<exists>s. fst (formatAmount a w) = Inr s)"

definition transparent :: "('r, 'w, 'e) formatter \<Rightarrow> bool" where
  "transparent formatAmount = (\<forall>a w1 w2. fst (formatAmount a w1) = fst (formatAmount a w2))"

section \<open>Vocabulary of the statements\<close>

text \<open>
  \<open>renders formatAmount data w out\<close>: called in the world \<open>w\<close>, the component returns the
  tree \<open>out\<close>. \<open>returned m a\<close>: in some world the computation \<open>m\<close> returns \<open>a\<close>.
  \<open>rows_labelled l t\<close>: the rows of \<open>t\<close> with the label \<open>l\<close>. \<open>negative\<close>: a number below
  zero.
\<close>

definition renders :: "('r, 'w, 'e) formatter \<Rightarrow> 'r cart \<Rightarrow> 'w \<Rightarrow> jsx \<Rightarrow> bool" where
  "renders formatAmount data w out = (\<exists>w'. CartTotals formatAmount data w = (Inr out, w'))"

definition returned :: "('w, 'e, 'a) js \<Rightarrow> 'a \<Rightarrow> bool" where
  "returned m a = (\<exists>w w'. m w = (Inr a, w'))"

definition rows_labelled :: "string \<Rightarrow> jsx \<Rightarrow> row list" where
  "rows_labelled l t = filter (\<lambda>r. label r = l) (rows_of t)"

fun negative :: "number \<Rightarrow> bool" where
  "negative (Num n) = (n < 0)"
| "negative NaN = False"
| "negative PosInfinity = False"
| "negative NegInfinity = True"

text \<open>
  Properties of a computation that compose along \<open>bindE\<close>: it returns in every world; its
  result does not depend on the world; it keeps a property of the logged calls.
\<close>

definition succeeds :: "('w, 'e, 'a) js \<Rightarrow> bool" where
  "succeeds m = (\<forall>w. \<exists>a w'. m w = (Inr a, w'))"

definition world_free :: "('w, 'e, 'a) js \<Rightarrow> bool" where
  "world_free m = (\<forall>w1 w2. fst (m w1) = fst (m w2))"

definition log_keeps ::
  "('r format_args \<Rightarrow> bool) \<Rightarrow> ('r format_args list \<times> 'w, 'e, 'a) js \<Rightarrow> bool" where
  "log_keeps P m = (\<forall>log w. list_all P log \<longrightarrow> list_all P (fst (snd (m (log, w)))))"

section \<open>Two formatters to run the component with\<close>

text \<open>
  \<open>sample_formatAmount\<close> prints the amount in decimal after the region's currency sign,
  with a minus sign in front of a negative amount, and counts its calls in the world; it
  never throws and is referentially transparent. \<open>ticket_formatAmount\<close> prints the
  number of the call instead, so its result depends on the world.
\<close>

fun decimal :: "nat \<Rightarrow> string" where
  "decimal n =
     (if n < 10 then [''0123456789'' ! n] else decimal (n div 10) @ [''0123456789'' ! (n mod 10)])"

declare decimal.simps [simp del]

definition sample_formatAmount :: "(string, nat, string) formatter" where
  "sample_formatAmount a calls_made =
     (Inr (case amount a of
             Num n \<Rightarrow> (if n < 0 then ''-'' else []) @ format_args.region a @ decimal (nat \<bar>n\<bar>)
           | NaN \<Rightarrow> ''NaN''
           | PosInfinity \<Rightarrow> format_args.region a @ ''Infinity''
           | NegInfinity \<Rightarrow> ''-'' @ format_args.region a @ ''Infinity''),
      Suc calls_made)"

definition ticket_formatAmount :: "(string, nat, string) formatter" where
  "ticket_formatAmount a calls_made = (Inr (decimal calls_made), Suc calls_made)"

text \<open>
  \<open>mirrors m' m\<close>: the computation \<open>m'\<close> over a log and a world does to the world and
  returns what \<open>m\<close> does, whatever the log.
\<close>

definition mirrors :: "('l \<times> 'w, 'e, 'a) js \<Rightarrow> ('w, 'e, 'a) js \<Rightarrow> bool" where
  "mirrors m' m = (\<forall>log w. fst (m' (log, w)) = fst (m w) \<and> snd (snd (m' (log, w))) = snd (m w))"

text \<open>The label of each row beside the field of \<open>data\<close> it shows, in the order of the JSX.\<close>

definition monetary_fields :: "(string \<times> ('r cart \<Rightarrow> field)) list" where
  "monetary_fields =
     [(''Subtotal'', subtotal), (''Discount'', discount_total), (''Shipping'', shipping_total),
      (''Taxes'', tax_total), (''Gift card'', gift_card_total), (''Total'', total)]"

text \<open>
  The scenarios A, B and C of the specification's testable properties, with the currency
  sign as region; a cart with both deductions, one with negative deductions, and one
  whose amounts are all \<open>NaN\<close>.
\<close>

definition scenario_A :: "string cart" where
  "scenario_A = \<lparr>subtotal = Number (Num 1000), discount_total = Number (Num 0),
     gift_card_total = Number (Num 0), tax_total = Number (Num 100),
     shipping_total = Number (Num 500), total = Number (Num 1600), region = ''$''\<rparr>"

definition scenario_B :: "string cart" where
  "scenario_B = \<lparr>subtotal = Number (Num 1000), discount_total = Number (Num 200),
     gift_card_total = Null, tax_total = Number (Num 80),
     shipping_total = Number (Num 0), total = Number (Num 880), region = ''$''\<rparr>"

definition scenario_C :: "string cart" where
  "scenario_C = \<lparr>subtotal = Null, discount_total = Null, gift_card_total = Null,
     tax_total = Null, shipping_total = Null, total = Null, region = ''$''\<rparr>"

definition full_cart :: "string cart" where
  "full_cart = \<lparr>subtotal = Number (Num 1000), discount_total = Number (Num 200),
     gift_card_total = Number (Num 300), tax_total = Number (Num 80),
     shipping_total = Number (Num 500), total = Number (Num 1080), region = ''$''\<rparr>"

definition negative_cart :: "string cart" where
  "negative_cart = \<lparr>subtotal = Number (Num 1000), discount_total = Number (Num (- 200)),
     gift_card_total = Number (Num (- 5)), tax_total = Number (Num 80),
     shipping_total = Undefined, total = Number (Num 1285), region = ''$''\<rparr>"

definition nan_cart :: "string cart" where
  "nan_cart = \<lparr>subtotal = Number NaN, discount_total = Number NaN, gift_card_total = Number NaN,
     tax_total = Number NaN, shipping_total = Number NaN, total = Number NaN, region = ''$''\<rparr>"

section \<open>The monad of calls\<close>

lemma bindE_Inr:
  "bindE m f w = (Inr b, w') \<longleftrightarrow> (\<exists>a w1. m w = (Inr a, w1) \<and> f a w1 = (Inr b, w'))"
  by (auto simp: bindE_def split: prod.splits sum.splits)

lemma returnE_Inr: "returnE a w = (Inr b, w') \<longleftrightarrow> (b = a \<and> w' = w)"
  by (auto simp: returnE_def)

lemma bindE_returnE: "bindE (returnE a) f = f a"
  by (rule ext) (simp add: bindE_def returnE_def)

lemma bindE_assoc: "bindE (bindE m g) f = bindE m (\<lambda>a. bindE (g a) f)"
  by (rule ext) (simp add: bindE_def split: prod.splits sum.splits)

lemma bindE_if: "bindE (if c then m1 else m2) f = (if c then bindE m1 f else bindE m2 f)"
  by simp

lemma succeeds_returnE: "succeeds (returnE a)"
  by (simp add: succeeds_def returnE_def)

lemma succeeds_bindE: "succeeds m \<Longrightarrow> (\<And>a. succeeds (f a)) \<Longrightarrow> succeeds (bindE m f)"
  unfolding succeeds_def bindE_def
proof
  fix w
  assume m: "\<forall>w. \<exists>a w'. m w = (Inr a, w')" and f: "\<And>a. \<forall>w. \<exists>b w'. f a w = (Inr b, w')"
  from m obtain a w1 where "m w = (Inr a, w1)" by blast
  moreover from f obtain b w2 where "f a w1 = (Inr b, w2)" by blast
  ultimately show "\<exists>b w'. (case m w of (Inl e, w') \<Rightarrow> (Inl e, w') | (Inr a, w') \<Rightarrow> f a w') = (Inr b, w')"
    by simp
qed

lemma world_free_returnE: "world_free (returnE a)"
  by (simp add: world_free_def returnE_def)

lemma world_free_bindE:
  "world_free m \<Longrightarrow> (\<And>a. world_free (f a)) \<Longrightarrow> world_free (bindE m f)"
  unfolding world_free_def bindE_def
proof (intro allI)
  fix w1 w2
  assume m: "\<forall>w1 w2. fst (m w1) = fst (m w2)" and f: "\<And>a. \<forall>w1 w2. fst (f a w1) = fst (f a w2)"
  have "fst (m w1) = fst (m w2)" using m by blast
  then show "fst (case m w1 of (Inl e, w') \<Rightarrow> (Inl e, w') | (Inr a, w') \<Rightarrow> f a w') =
             fst (case m w2 of (Inl e, w') \<Rightarrow> (Inl e, w') | (Inr a, w') \<Rightarrow> f a w')"
    using f by (auto split: prod.splits sum.splits)
qed

lemma log_keeps_returnE: "log_keeps P (returnE a)"
  by (simp add: log_keeps_def returnE_def)

lemma log_keeps_bindE:
  "log_keeps P m \<Longrightarrow> (\<And>a. log_keeps P (f a)) \<Longrightarrow> log_keeps P (bindE m f)"
  unfolding log_keeps_def bindE_def
  by (auto split: prod.splits sum.splits) (metis fst_conv snd_conv)+

section \<open>The calls of the component\<close>

lemma succeeds_getAmount: "never_throws fmt \<Longrightarrow> succeeds (getAmount fmt d x)"
  unfolding never_throws_def getAmount_def succeeds_def
  by (metis prod.collapse)

lemma succeeds_CartTotals: "never_throws fmt \<Longrightarrow> succeeds (CartTotals fmt d)"
  unfolding CartTotals_def
  by (intro succeeds_bindE succeeds_returnE succeeds_getAmount;
      simp add: succeeds_bindE succeeds_returnE succeeds_getAmount)

lemma never_throws_renders: "never_throws fmt \<Longrightarrow> \<exists>out. renders fmt d w out"
  using succeeds_CartTotals[of fmt d] unfolding succeeds_def renders_def by blast

lemma world_free_getAmount: "transparent fmt \<Longrightarrow> world_free (getAmount fmt d x)"
  unfolding transparent_def getAmount_def world_free_def by blast

lemma world_free_CartTotals: "transparent fmt \<Longrightarrow> world_free (CartTotals fmt d)"
  unfolding CartTotals_def
  by (intro world_free_bindE world_free_returnE world_free_getAmount;
      simp add: world_free_bindE world_free_returnE world_free_getAmount)

lemma log_keeps_getAmount:
  "P \<lparr>amount = or_else x (Num 0), region = region d, includeTaxes = False\<rparr> \<Longrightarrow>
   log_keeps P (getAmount (traced fmt) d x)"
  by (auto simp: log_keeps_def getAmount_def traced_def split: prod.splits)

lemma log_keeps_CartTotals:
  "(\<And>x. P \<lparr>amount = or_else x (Num 0), region = region d, includeTaxes = False\<rparr>) \<Longrightarrow>
   log_keeps P (CartTotals (traced fmt) d)"
  unfolding CartTotals_def
  by (intro log_keeps_bindE log_keeps_returnE log_keeps_getAmount;
      simp add: log_keeps_bindE log_keeps_returnE log_keeps_getAmount)

lemma list_all_calls:
  assumes "\<And>x. P \<lparr>amount = or_else x (Num 0), region = region d, includeTaxes = False\<rparr>"
  shows "list_all P (calls fmt d w)"
proof -
  have "log_keeps P (CartTotals (traced fmt) d)"
    by (rule log_keeps_CartTotals) (rule assms)
  then show ?thesis
    unfolding log_keeps_def calls_def by (simp del: split_paired_All)
qed

lemma traced_getAmount_bindE:
  assumes "never_throws fmt"
  shows "bindE (getAmount (traced fmt) d x) f (log, w) =
   f (projr (fst (fmt \<lparr>amount = or_else x (Num 0), region = region d, includeTaxes = False\<rparr> w)))
     (log @ [\<lparr>amount = or_else x (Num 0), region = region d, includeTaxes = False\<rparr>],
      snd (fmt \<lparr>amount = or_else x (Num 0), region = region d, includeTaxes = False\<rparr> w))"
proof -
  from assms obtain s
    where "fst (fmt \<lparr>amount = or_else x (Num 0), region = region d, includeTaxes = False\<rparr> w) = Inr s"
    unfolding never_throws_def by blast
  then show ?thesis
    by (auto simp: bindE_def getAmount_def traced_def split: prod.splits sum.splits)
qed

lemma calls_never_throws:
  "never_throws fmt \<Longrightarrow> calls fmt d w =
   [\<lparr>amount = or_else (subtotal d) (Num 0), region = region d, includeTaxes = False\<rparr>]
   @ (if truthy (discount_total d)
      then [\<lparr>amount = or_else (discount_total d) (Num 0), region = region d, includeTaxes = False\<rparr>]
      else [])
   @ [\<lparr>amount = or_else (shipping_total d) (Num 0), region = region d, includeTaxes = False\<rparr>,
      \<lparr>amount = or_else (tax_total d) (Num 0), region = region d, includeTaxes = False\<rparr>]
   @ (if truthy (gift_card_total d)
      then [\<lparr>amount = or_else (gift_card_total d) (Num 0), region = region d, includeTaxes = False\<rparr>]
      else [])
   @ [\<lparr>amount = or_else (total d) (Num 0), region = region d, includeTaxes = False\<rparr>]"
  by (simp add: calls_def CartTotals_def bindE_if bindE_assoc bindE_returnE traced_getAmount_bindE)
    (simp add: returnE_def)

section \<open>The rows of the returned tree\<close>

lemma truthy_iff: "truthy f \<longleftrightarrow> (\<exists>n. f = Number n \<and> n \<noteq> Num 0 \<and> n \<noteq> NaN)"
proof (cases f)
  case (Number n)
  then show ?thesis by (cases n) auto
qed auto

lemma rows_of_CartTotals:
  assumes "renders fmt d w out"
  shows "\<exists>s1 s2 s3 s4 s5 s6.
     returned (getAmount fmt d (subtotal d)) s1 \<and>
     (truthy (discount_total d) \<longrightarrow> returned (getAmount fmt d (discount_total d)) s2) \<and>
     returned (getAmount fmt d (shipping_total d)) s3 \<and>
     returned (getAmount fmt d (tax_total d)) s4 \<and>
     (truthy (gift_card_total d) \<longrightarrow> returned (getAmount fmt d (gift_card_total d)) s5) \<and>
     returned (getAmount fmt d (total d)) s6 \<and>
     rows_of out =
       [\<lparr>label = ''Subtotal'', testid = ''cart-subtotal'',
         raw = or_else (subtotal d) (Num 0), shown = s1\<rparr>]
       @ (if truthy (discount_total d)
          then [\<lparr>label = ''Discount'', testid = ''cart-discount'',
                 raw = or_else (discount_total d) (Num 0), shown = ''- '' @ s2\<rparr>]
          else [])
       @ [\<lparr>label = ''Shipping'', testid = ''cart-shipping'',
           raw = or_else (shipping_total d) (Num 0), shown = s3\<rparr>,
          \<lparr>label = ''Taxes'', testid = ''cart-taxes'',
           raw = or_else (tax_total d) (Num 0), shown = s4\<rparr>]
       @ (if truthy (gift_card_total d)
          then [\<lparr>label = ''Gift card'', testid = ''cart-gift-card-amount'',
                 raw = or_else (gift_card_total d) (Num 0), shown = ''- '' @ s5\<rparr>]
          else [])
       @ [\<lparr>label = ''Total'', testid = ''cart-total'',
           raw = or_else (total d) (Num 0), shown = s6\<rparr>]"
  using assms
  apply (simp add: renders_def CartTotals_def bindE_Inr returnE_Inr returned_def split: if_splits)
     apply (elim exE conjE; simp; blast)+
  done

lemma mirrors_returnE: "mirrors (returnE a) (returnE a)"
  by (simp add: mirrors_def returnE_def)

lemma mirrors_bindE:
  assumes m: "mirrors m' m" and f: "\<And>a. mirrors (f' a) (f a)"
  shows "mirrors (bindE m' f') (bindE m f)"
  unfolding mirrors_def
proof (intro allI)
  fix log w
  obtain r l1 w1 where m': "m' (log, w) = (r, (l1, w1))" by (metis prod.collapse)
  with m have mw: "m w = (r, w1)" unfolding mirrors_def by (metis fst_conv snd_conv prod.collapse)
  show "fst (bindE m' f' (log, w)) = fst (bindE m f w) \<and>
        snd (snd (bindE m' f' (log, w))) = snd (bindE m f w)"
  proof (cases r)
    case (Inl e)
    with m' mw show ?thesis by (simp add: bindE_def)
  next
    case (Inr a)
    with m' mw f[of a] show ?thesis by (simp add: bindE_def mirrors_def)
  qed
qed

lemma mirrors_getAmount: "mirrors (getAmount (traced fmt) d x) (getAmount fmt d x)"
  by (simp add: mirrors_def getAmount_def traced_def split: prod.splits)

lemma mirrors_CartTotals: "mirrors (CartTotals (traced fmt) d) (CartTotals fmt d)"
  unfolding CartTotals_def
  by (intro mirrors_bindE mirrors_returnE mirrors_getAmount;
      simp add: mirrors_bindE mirrors_returnE mirrors_getAmount)

lemma never_throws_sample: "never_throws sample_formatAmount"
  by (simp add: never_throws_def sample_formatAmount_def)

lemma transparent_sample: "transparent sample_formatAmount"
  by (simp add: transparent_def sample_formatAmount_def)

lemma rows_labelled_CartTotals:
  assumes "renders fmt d w out"
  shows "\<exists>s1 s2 s3 s4 s5 s6.
     returned (getAmount fmt d (subtotal d)) s1 \<and>
     (truthy (discount_total d) \<longrightarrow> returned (getAmount fmt d (discount_total d)) s2) \<and>
     returned (getAmount fmt d (shipping_total d)) s3 \<and>
     returned (getAmount fmt d (tax_total d)) s4 \<and>
     (truthy (gift_card_total d) \<longrightarrow> returned (getAmount fmt d (gift_card_total d)) s5) \<and>
     returned (getAmount fmt d (total d)) s6 \<and>
     rows_labelled ''Subtotal'' out =
       [\<lparr>label = ''Subtotal'', testid = ''cart-subtotal'',
         raw = or_else (subtotal d) (Num 0), shown = s1\<rparr>] \<and>
     rows_labelled ''Discount'' out =
       (if truthy (discount_total d)
        then [\<lparr>label = ''Discount'', testid = ''cart-discount'',
               raw = or_else (discount_total d) (Num 0), shown = ''- '' @ s2\<rparr>]
        else []) \<and>
     rows_labelled ''Shipping'' out =
       [\<lparr>label = ''Shipping'', testid = ''cart-shipping'',
         raw = or_else (shipping_total d) (Num 0), shown = s3\<rparr>] \<and>
     rows_labelled ''Taxes'' out =
       [\<lparr>label = ''Taxes'', testid = ''cart-taxes'',
         raw = or_else (tax_total d) (Num 0), shown = s4\<rparr>] \<and>
     rows_labelled ''Gift card'' out =
       (if truthy (gift_card_total d)
        then [\<lparr>label = ''Gift card'', testid = ''cart-gift-card-amount'',
               raw = or_else (gift_card_total d) (Num 0), shown = ''- '' @ s5\<rparr>]
        else []) \<and>
     rows_labelled ''Total'' out =
       [\<lparr>label = ''Total'', testid = ''cart-total'',
         raw = or_else (total d) (Num 0), shown = s6\<rparr>]"
proof -
  from rows_of_CartTotals[OF assms] obtain s1 s2 s3 s4 s5 s6 where
    ret: "returned (getAmount fmt d (subtotal d)) s1"
      "truthy (discount_total d) \<longrightarrow> returned (getAmount fmt d (discount_total d)) s2"
      "returned (getAmount fmt d (shipping_total d)) s3"
      "returned (getAmount fmt d (tax_total d)) s4"
      "truthy (gift_card_total d) \<longrightarrow> returned (getAmount fmt d (gift_card_total d)) s5"
      "returned (getAmount fmt d (total d)) s6"
    and rows: "rows_of out =
       [\<lparr>label = ''Subtotal'', testid = ''cart-subtotal'',
         raw = or_else (subtotal d) (Num 0), shown = s1\<rparr>]
       @ (if truthy (discount_total d)
          then [\<lparr>label = ''Discount'', testid = ''cart-discount'',
                 raw = or_else (discount_total d) (Num 0), shown = ''- '' @ s2\<rparr>]
          else [])
       @ [\<lparr>label = ''Shipping'', testid = ''cart-shipping'',
           raw = or_else (shipping_total d) (Num 0), shown = s3\<rparr>,
          \<lparr>label = ''Taxes'', testid = ''cart-taxes'',
           raw = or_else (tax_total d) (Num 0), shown = s4\<rparr>]
       @ (if truthy (gift_card_total d)
          then [\<lparr>label = ''Gift card'', testid = ''cart-gift-card-amount'',
                 raw = or_else (gift_card_total d) (Num 0), shown = ''- '' @ s5\<rparr>]
          else [])
       @ [\<lparr>label = ''Total'', testid = ''cart-total'',
           raw = or_else (total d) (Num 0), shown = s6\<rparr>]"
    by blast
  have "rows_labelled ''Subtotal'' out =
       [\<lparr>label = ''Subtotal'', testid = ''cart-subtotal'',
         raw = or_else (subtotal d) (Num 0), shown = s1\<rparr>]"
    by (simp add: rows_labelled_def rows)
  moreover have "rows_labelled ''Discount'' out =
       (if truthy (discount_total d)
        then [\<lparr>label = ''Discount'', testid = ''cart-discount'',
               raw = or_else (discount_total d) (Num 0), shown = ''- '' @ s2\<rparr>]
        else [])"
    by (simp add: rows_labelled_def rows)
  moreover have "rows_labelled ''Shipping'' out =
       [\<lparr>label = ''Shipping'', testid = ''cart-shipping'',
         raw = or_else (shipping_total d) (Num 0), shown = s3\<rparr>]"
    by (simp add: rows_labelled_def rows)
  moreover have "rows_labelled ''Taxes'' out =
       [\<lparr>label = ''Taxes'', testid = ''cart-taxes'',
         raw = or_else (tax_total d) (Num 0), shown = s4\<rparr>]"
    by (simp add: rows_labelled_def rows)
  moreover have "rows_labelled ''Gift card'' out =
       (if truthy (gift_card_total d)
        then [\<lparr>label = ''Gift card'', testid = ''cart-gift-card-amount'',
               raw = or_else (gift_card_total d) (Num 0), shown = ''- '' @ s5\<rparr>]
        else [])"
    by (simp add: rows_labelled_def rows)
  moreover have "rows_labelled ''Total'' out =
       [\<lparr>label = ''Total'', testid = ''cart-total'',
         raw = or_else (total d) (Num 0), shown = s6\<rparr>]"
    by (simp add: rows_labelled_def rows)
  ultimately show ?thesis using ret by blast
qed

lemma labels_CartTotals:
  assumes "renders fmt d w out"
  shows "map label (rows_of out) =
     [''Subtotal''] @ (if truthy (discount_total d) then [''Discount''] else [])
     @ [''Shipping'', ''Taxes''] @ (if truthy (gift_card_total d) then [''Gift card''] else [])
     @ [''Total'']"
  using rows_of_CartTotals[OF assms] by auto

section \<open>Properties of the component\<close>

text \<open>
  A statement about the returned tree has two parts: the component returns a tree
  whenever the formatter never throws, and whatever tree it returns has the property.
  A formatter that throws ends the component with the thrown value, and there is no tree.
\<close>

text \<open>
  C1. The Discount row is in the output if and only if \<open>discount_total\<close> is a number
  other than zero and \<open>NaN\<close> (a truthy number), and the Gift card row if and only if
  \<open>gift_card_total\<close> is one; so \<open>null\<close>, \<open>undefined\<close> and zero hide the row.
\<close>

theorem optional_rows_iff_truthy:
  "(never_throws formatAmount \<longrightarrow> (\<exists>out. renders formatAmount data w out)) \<and>
   (\<forall>out. renders formatAmount data w out \<longrightarrow>
      (rows_labelled ''Discount'' out \<noteq> []) =
        (\<exists>n. discount_total data = Number n \<and> n \<noteq> Num 0 \<and> n \<noteq> NaN) \<and>
      (rows_labelled ''Gift card'' out \<noteq> []) =
        (\<exists>n. gift_card_total data = Number n \<and> n \<noteq> Num 0 \<and> n \<noteq> NaN))"
proof -
  have "(rows_labelled ''Discount'' out \<noteq> []) = truthy (discount_total data) \<and>
        (rows_labelled ''Gift card'' out \<noteq> []) = truthy (gift_card_total data)"
    if "renders formatAmount data w out" for out
  proof -
    from rows_labelled_CartTotals[OF that] obtain s2 s5 where
      d: "rows_labelled ''Discount'' out =
           (if truthy (discount_total data)
            then [\<lparr>label = ''Discount'', testid = ''cart-discount'',
                   raw = or_else (discount_total data) (Num 0), shown = ''- '' @ s2\<rparr>]
            else [])"
      and g: "rows_labelled ''Gift card'' out =
           (if truthy (gift_card_total data)
            then [\<lparr>label = ''Gift card'', testid = ''cart-gift-card-amount'',
                   raw = or_else (gift_card_total data) (Num 0), shown = ''- '' @ s5\<rparr>]
            else [])"
      by blast
    show ?thesis unfolding d g by simp
  qed
  then show ?thesis
    using never_throws_renders[of formatAmount data w] by (simp add: truthy_iff)
qed

theorem optional_rows_iff_truthy_witness:
  "never_throws sample_formatAmount \<and>
   (\<exists>out. renders sample_formatAmount scenario_B 0 out \<and>
      rows_labelled ''Discount'' out \<noteq> [] \<and> rows_labelled ''Gift card'' out = [])"
proof -
  note t = optional_rows_iff_truthy[of sample_formatAmount scenario_B 0]
  from t never_throws_sample obtain out where r: "renders sample_formatAmount scenario_B 0 out"
    by blast
  with t have "rows_labelled ''Discount'' out \<noteq> [] \<and> rows_labelled ''Gift card'' out = []"
    by (simp add: scenario_B_def)
  with r never_throws_sample show ?thesis by blast
qed

lemma never_throws_renders_imp:
  "never_throws fmt \<longrightarrow> (\<exists>out. renders fmt d w out)"
  by (intro impI never_throws_renders)

text \<open>
  C4. The Subtotal, Shipping, Taxes and Total rows are in the output whatever their
  fields hold (a number, zero, \<open>null\<close> or \<open>undefined\<close>): each label has exactly one row.
\<close>

theorem fixed_rows_always_present:
  "(never_throws formatAmount \<longrightarrow> (\<exists>out. renders formatAmount data w out)) \<and>
   (\<forall>out. renders formatAmount data w out \<longrightarrow>
      (\<forall>l \<in> {''Subtotal'', ''Shipping'', ''Taxes'', ''Total''}. length (rows_labelled l out) = 1))"
proof -
  have "\<forall>l \<in> {''Subtotal'', ''Shipping'', ''Taxes'', ''Total''}. length (rows_labelled l out) = 1"
    if "renders formatAmount data w out" for out
  proof -
    from rows_labelled_CartTotals[OF that] obtain s1 s3 s4 s6 where
      "rows_labelled ''Subtotal'' out =
         [\<lparr>label = ''Subtotal'', testid = ''cart-subtotal'',
           raw = or_else (subtotal data) (Num 0), shown = s1\<rparr>]"
      "rows_labelled ''Shipping'' out =
         [\<lparr>label = ''Shipping'', testid = ''cart-shipping'',
           raw = or_else (shipping_total data) (Num 0), shown = s3\<rparr>]"
      "rows_labelled ''Taxes'' out =
         [\<lparr>label = ''Taxes'', testid = ''cart-taxes'',
           raw = or_else (tax_total data) (Num 0), shown = s4\<rparr>]"
      "rows_labelled ''Total'' out =
         [\<lparr>label = ''Total'', testid = ''cart-total'',
           raw = or_else (total data) (Num 0), shown = s6\<rparr>]"
      by (elim exE conjE)
    then show ?thesis by simp
  qed
  then have "\<forall>out. renders formatAmount data w out \<longrightarrow>
      (\<forall>l \<in> {''Subtotal'', ''Shipping'', ''Taxes'', ''Total''}. length (rows_labelled l out) = 1)"
    by (intro allI impI)
  with never_throws_renders_imp show ?thesis by (rule conjI)
qed

theorem fixed_rows_always_present_witness:
  "never_throws sample_formatAmount \<and>
   (\<exists>out. renders sample_formatAmount scenario_C 0 out \<and>
      length (rows_labelled ''Subtotal'' out) = 1 \<and> length (rows_labelled ''Shipping'' out) = 1 \<and>
      length (rows_labelled ''Taxes'' out) = 1 \<and> length (rows_labelled ''Total'' out) = 1)"
proof -
  note t = fixed_rows_always_present[of sample_formatAmount scenario_C 0]
  from t never_throws_sample obtain out where r: "renders sample_formatAmount scenario_C 0 out"
    by (elim conjE impE exE)
  with t have "\<forall>l \<in> {''Subtotal'', ''Shipping'', ''Taxes'', ''Total''}. length (rows_labelled l out) = 1"
    by simp
  then have "length (rows_labelled ''Subtotal'' out) = 1" "length (rows_labelled ''Shipping'' out) = 1"
      "length (rows_labelled ''Taxes'' out) = 1" "length (rows_labelled ''Total'' out) = 1"
    by simp_all
  with r never_throws_sample show ?thesis by (auto intro!: exI[of _ out])
qed

text \<open>
  C5. The rows come in the order Subtotal, Discount, Shipping, Taxes, Gift card, Total,
  the hidden optional rows left out, for every input.
\<close>

theorem rows_in_fixed_order:
  "(never_throws formatAmount \<longrightarrow> (\<exists>out. renders formatAmount data w out)) \<and>
   (\<forall>out. renders formatAmount data w out \<longrightarrow>
      map label (rows_of out) =
        [''Subtotal''] @ (if truthy (discount_total data) then [''Discount''] else [])
        @ [''Shipping'', ''Taxes''] @ (if truthy (gift_card_total data) then [''Gift card''] else [])
        @ [''Total''] \<and>
      map label (rows_of out) =
        filter (\<lambda>l. rows_labelled l out \<noteq> [])
          [''Subtotal'', ''Discount'', ''Shipping'', ''Taxes'', ''Gift card'', ''Total''])"
proof -
  have "map label (rows_of out) =
        [''Subtotal''] @ (if truthy (discount_total data) then [''Discount''] else [])
        @ [''Shipping'', ''Taxes''] @ (if truthy (gift_card_total data) then [''Gift card''] else [])
        @ [''Total''] \<and>
      map label (rows_of out) =
        filter (\<lambda>l. rows_labelled l out \<noteq> [])
          [''Subtotal'', ''Discount'', ''Shipping'', ''Taxes'', ''Gift card'', ''Total'']"
    if r: "renders formatAmount data w out" for out
  proof -
    have ne: "rows_labelled l out \<noteq> [] \<longleftrightarrow> l \<in> set (map label (rows_of out))" for l
      by (auto simp: rows_labelled_def filter_empty_conv)
    show ?thesis
      unfolding ne unfolding labels_CartTotals[OF r] by simp
  qed
  then have "\<forall>out. renders formatAmount data w out \<longrightarrow>
      map label (rows_of out) =
        [''Subtotal''] @ (if truthy (discount_total data) then [''Discount''] else [])
        @ [''Shipping'', ''Taxes''] @ (if truthy (gift_card_total data) then [''Gift card''] else [])
        @ [''Total''] \<and>
      map label (rows_of out) =
        filter (\<lambda>l. rows_labelled l out \<noteq> [])
          [''Subtotal'', ''Discount'', ''Shipping'', ''Taxes'', ''Gift card'', ''Total'']"
    by (intro allI impI)
  with never_throws_renders_imp show ?thesis by (rule conjI)
qed

theorem rows_in_fixed_order_witness:
  "never_throws sample_formatAmount \<and>
   (\<exists>out. renders sample_formatAmount scenario_B 0 out \<and>
      map label (rows_of out) = [''Subtotal'', ''Discount'', ''Shipping'', ''Taxes'', ''Total''])"
proof -
  note t = rows_in_fixed_order[of sample_formatAmount scenario_B 0]
  from t never_throws_sample obtain out where r: "renders sample_formatAmount scenario_B 0 out"
    by (elim conjE impE exE)
  with t have "map label (rows_of out) =
        [''Subtotal''] @ (if truthy (discount_total scenario_B) then [''Discount''] else [])
        @ [''Shipping'', ''Taxes''] @ (if truthy (gift_card_total scenario_B) then [''Gift card''] else [])
        @ [''Total'']"
    by simp
  then have "map label (rows_of out) = [''Subtotal'', ''Discount'', ''Shipping'', ''Taxes'', ''Total'']"
    by (simp add: scenario_B_def)
  with r never_throws_sample show ?thesis by (auto intro!: exI[of _ out])
qed

lemma returned_sample:
  "returned (sample_formatAmount a) s \<longleftrightarrow> s = projr (fst (sample_formatAmount a 0))"
  by (auto simp: returned_def sample_formatAmount_def)

text \<open>
  C6. The text of the Discount row and of the Gift card row is \<open>"- "\<close> followed by the
  string the formatter returned for the amount; the text of the Subtotal, Shipping, Taxes
  and Total rows is the formatter's string alone, with nothing in front.
\<close>

theorem marker_only_on_deductions:
  "(never_throws formatAmount \<longrightarrow> (\<exists>out. renders formatAmount data w out)) \<and>
   (\<forall>out. renders formatAmount data w out \<longrightarrow>
      (\<exists>s. returned (getAmount formatAmount data (subtotal data)) s \<and>
           map shown (rows_labelled ''Subtotal'' out) = [s]) \<and>
      (\<exists>s. returned (getAmount formatAmount data (shipping_total data)) s \<and>
           map shown (rows_labelled ''Shipping'' out) = [s]) \<and>
      (\<exists>s. returned (getAmount formatAmount data (tax_total data)) s \<and>
           map shown (rows_labelled ''Taxes'' out) = [s]) \<and>
      (\<exists>s. returned (getAmount formatAmount data (total data)) s \<and>
           map shown (rows_labelled ''Total'' out) = [s]) \<and>
      (truthy (discount_total data) \<longrightarrow>
         (\<exists>s. returned (getAmount formatAmount data (discount_total data)) s \<and>
              map shown (rows_labelled ''Discount'' out) = [''- '' @ s])) \<and>
      (truthy (gift_card_total data) \<longrightarrow>
         (\<exists>s. returned (getAmount formatAmount data (gift_card_total data)) s \<and>
              map shown (rows_labelled ''Gift card'' out) = [''- '' @ s])))"
proof -
  have "(\<exists>s. returned (getAmount formatAmount data (subtotal data)) s \<and>
           map shown (rows_labelled ''Subtotal'' out) = [s]) \<and>
      (\<exists>s. returned (getAmount formatAmount data (shipping_total data)) s \<and>
           map shown (rows_labelled ''Shipping'' out) = [s]) \<and>
      (\<exists>s. returned (getAmount formatAmount data (tax_total data)) s \<and>
           map shown (rows_labelled ''Taxes'' out) = [s]) \<and>
      (\<exists>s. returned (getAmount formatAmount data (total data)) s \<and>
           map shown (rows_labelled ''Total'' out) = [s]) \<and>
      (truthy (discount_total data) \<longrightarrow>
         (\<exists>s. returned (getAmount formatAmount data (discount_total data)) s \<and>
              map shown (rows_labelled ''Discount'' out) = [''- '' @ s])) \<and>
      (truthy (gift_card_total data) \<longrightarrow>
         (\<exists>s. returned (getAmount formatAmount data (gift_card_total data)) s \<and>
              map shown (rows_labelled ''Gift card'' out) = [''- '' @ s]))"
    if "renders formatAmount data w out" for out
  proof -
    from rows_labelled_CartTotals[OF that] obtain s1 s2 s3 s4 s5 s6 where
      ret: "returned (getAmount formatAmount data (subtotal data)) s1"
        "truthy (discount_total data) \<longrightarrow> returned (getAmount formatAmount data (discount_total data)) s2"
        "returned (getAmount formatAmount data (shipping_total data)) s3"
        "returned (getAmount formatAmount data (tax_total data)) s4"
        "truthy (gift_card_total data) \<longrightarrow> returned (getAmount formatAmount data (gift_card_total data)) s5"
        "returned (getAmount formatAmount data (total data)) s6"
      and rows: "rows_labelled ''Subtotal'' out =
         [\<lparr>label = ''Subtotal'', testid = ''cart-subtotal'',
           raw = or_else (subtotal data) (Num 0), shown = s1\<rparr>]"
        "rows_labelled ''Discount'' out =
         (if truthy (discount_total data)
          then [\<lparr>label = ''Discount'', testid = ''cart-discount'',
                 raw = or_else (discount_total data) (Num 0), shown = ''- '' @ s2\<rparr>]
          else [])"
        "rows_labelled ''Shipping'' out =
         [\<lparr>label = ''Shipping'', testid = ''cart-shipping'',
           raw = or_else (shipping_total data) (Num 0), shown = s3\<rparr>]"
        "rows_labelled ''Taxes'' out =
         [\<lparr>label = ''Taxes'', testid = ''cart-taxes'',
           raw = or_else (tax_total data) (Num 0), shown = s4\<rparr>]"
        "rows_labelled ''Gift card'' out =
         (if truthy (gift_card_total data)
          then [\<lparr>label = ''Gift card'', testid = ''cart-gift-card-amount'',
                 raw = or_else (gift_card_total data) (Num 0), shown = ''- '' @ s5\<rparr>]
          else [])"
        "rows_labelled ''Total'' out =
         [\<lparr>label = ''Total'', testid = ''cart-total'',
           raw = or_else (total data) (Num 0), shown = s6\<rparr>]"
      by (elim exE conjE)
    have 1: "\<exists>s. returned (getAmount formatAmount data (subtotal data)) s \<and>
           map shown (rows_labelled ''Subtotal'' out) = [s]"
      using ret(1) by (intro exI[of _ s1]) (simp add: rows)
    have 3: "\<exists>s. returned (getAmount formatAmount data (shipping_total data)) s \<and>
           map shown (rows_labelled ''Shipping'' out) = [s]"
      using ret(3) by (intro exI[of _ s3]) (simp add: rows)
    have 4: "\<exists>s. returned (getAmount formatAmount data (tax_total data)) s \<and>
           map shown (rows_labelled ''Taxes'' out) = [s]"
      using ret(4) by (intro exI[of _ s4]) (simp add: rows)
    have 6: "\<exists>s. returned (getAmount formatAmount data (total data)) s \<and>
           map shown (rows_labelled ''Total'' out) = [s]"
      using ret(6) by (intro exI[of _ s6]) (simp add: rows)
    have 2: "truthy (discount_total data) \<longrightarrow>
         (\<exists>s. returned (getAmount formatAmount data (discount_total data)) s \<and>
              map shown (rows_labelled ''Discount'' out) = [''- '' @ s])"
      using ret(2) by (intro impI exI[of _ s2]) (simp add: rows)
    have 5: "truthy (gift_card_total data) \<longrightarrow>
         (\<exists>s. returned (getAmount formatAmount data (gift_card_total data)) s \<and>
              map shown (rows_labelled ''Gift card'' out) = [''- '' @ s])"
      using ret(5) by (intro impI exI[of _ s5]) (simp add: rows)
    from 1 3 4 6 2 5 show ?thesis by (intro conjI)
  qed
  then have "\<forall>out. renders formatAmount data w out \<longrightarrow>
      (\<exists>s. returned (getAmount formatAmount data (subtotal data)) s \<and>
           map shown (rows_labelled ''Subtotal'' out) = [s]) \<and>
      (\<exists>s. returned (getAmount formatAmount data (shipping_total data)) s \<and>
           map shown (rows_labelled ''Shipping'' out) = [s]) \<and>
      (\<exists>s. returned (getAmount formatAmount data (tax_total data)) s \<and>
           map shown (rows_labelled ''Taxes'' out) = [s]) \<and>
      (\<exists>s. returned (getAmount formatAmount data (total data)) s \<and>
           map shown (rows_labelled ''Total'' out) = [s]) \<and>
      (truthy (discount_total data) \<longrightarrow>
         (\<exists>s. returned (getAmount formatAmount data (discount_total data)) s \<and>
              map shown (rows_labelled ''Discount'' out) = [''- '' @ s])) \<and>
      (truthy (gift_card_total data) \<longrightarrow>
         (\<exists>s. returned (getAmount formatAmount data (gift_card_total data)) s \<and>
              map shown (rows_labelled ''Gift card'' out) = [''- '' @ s]))"
    by (intro allI impI)
  with never_throws_renders_imp show ?thesis by (rule conjI)
qed

theorem marker_only_on_deductions_witness:
  "never_throws sample_formatAmount \<and>
   truthy (discount_total full_cart) \<and> truthy (gift_card_total full_cart) \<and>
   (\<exists>out. renders sample_formatAmount full_cart 0 out \<and>
      map shown (rows_labelled ''Subtotal'' out) = [''$1000''] \<and>
      map shown (rows_labelled ''Discount'' out) = [''- $200''] \<and>
      map shown (rows_labelled ''Shipping'' out) = [''$500''] \<and>
      map shown (rows_labelled ''Taxes'' out) = [''$80''] \<and>
      map shown (rows_labelled ''Gift card'' out) = [''- $300''] \<and>
      map shown (rows_labelled ''Total'' out) = [''$1080''])"
proof -
  note t = marker_only_on_deductions[of sample_formatAmount full_cart 0]
  have td: "truthy (discount_total full_cart)" and tg: "truthy (gift_card_total full_cart)"
    by (simp_all add: full_cart_def)
  from t never_throws_sample obtain out where r: "renders sample_formatAmount full_cart 0 out"
    by (elim conjE impE exE)
  have ev: "returned (getAmount sample_formatAmount full_cart x) s \<longleftrightarrow>
     s = projr (fst (sample_formatAmount \<lparr>amount = or_else x (Num 0), region = ''$'', includeTaxes = False\<rparr> 0))" for x s
    by (simp add: getAmount_def returned_sample full_cart_def)
  from t r td tg have "map shown (rows_labelled ''Subtotal'' out) = [''$1000'']"
      "map shown (rows_labelled ''Discount'' out) = [''- $200'']"
      "map shown (rows_labelled ''Shipping'' out) = [''$500'']"
      "map shown (rows_labelled ''Taxes'' out) = [''$80'']"
      "map shown (rows_labelled ''Gift card'' out) = [''- $300'']"
      "map shown (rows_labelled ''Total'' out) = [''$1080'']"
    by (simp_all add: ev) (simp_all add: full_cart_def sample_formatAmount_def decimal.simps)
  with r never_throws_sample td tg show ?thesis by (auto intro!: exI[of _ out])
qed

lemma negative_truthy: "negative n \<Longrightarrow> truthy (Number n) \<and> or_else (Number n) (Num 0) = n"
  by (cases n) auto

text \<open>
  C9. A negative \<open>discount_total\<close> (or \<open>gift_card_total\<close>) is truthy, so its row is shown;
  the negative amount goes to the formatter as it is, the raw value is the negative
  amount, and \<open>"- "\<close> still stands before the formatter's string. With a formatter that
  prints a minus sign for a negative amount the row reads \<open>- -$200\<close>.
\<close>

theorem negative_deduction_keeps_marker:
  "(never_throws formatAmount \<longrightarrow> (\<exists>out. renders formatAmount data w out)) \<and>
   (negative n \<and> discount_total data = Number n \<longrightarrow>
      (never_throws formatAmount \<longrightarrow>
         \<lparr>amount = n, region = region data, includeTaxes = False\<rparr> \<in> set (calls formatAmount data w)) \<and>
      (\<forall>out. renders formatAmount data w out \<longrightarrow>
         (\<exists>s. returned (formatAmount \<lparr>amount = n, region = region data, includeTaxes = False\<rparr>) s \<and>
              rows_labelled ''Discount'' out =
                [\<lparr>label = ''Discount'', testid = ''cart-discount'', raw = n, shown = ''- '' @ s\<rparr>]))) \<and>
   (negative m \<and> gift_card_total data = Number m \<longrightarrow>
      (never_throws formatAmount \<longrightarrow>
         \<lparr>amount = m, region = region data, includeTaxes = False\<rparr> \<in> set (calls formatAmount data w)) \<and>
      (\<forall>out. renders formatAmount data w out \<longrightarrow>
         (\<exists>s. returned (formatAmount \<lparr>amount = m, region = region data, includeTaxes = False\<rparr>) s \<and>
              rows_labelled ''Gift card'' out =
                [\<lparr>label = ''Gift card'', testid = ''cart-gift-card-amount'', raw = m,
                  shown = ''- '' @ s\<rparr>])))"
proof -
  have d: "(never_throws formatAmount \<longrightarrow>
         \<lparr>amount = n, region = region data, includeTaxes = False\<rparr> \<in> set (calls formatAmount data w)) \<and>
      (\<forall>out. renders formatAmount data w out \<longrightarrow>
         (\<exists>s. returned (formatAmount \<lparr>amount = n, region = region data, includeTaxes = False\<rparr>) s \<and>
              rows_labelled ''Discount'' out =
                [\<lparr>label = ''Discount'', testid = ''cart-discount'', raw = n, shown = ''- '' @ s\<rparr>]))"
    if neg: "negative n \<and> discount_total data = Number n"
  proof -
    from neg negative_truthy[of n]
    have tr: "truthy (discount_total data)" and oe: "or_else (discount_total data) (Num 0) = n"
      by simp_all
    have c: "never_throws formatAmount \<longrightarrow>
         \<lparr>amount = n, region = region data, includeTaxes = False\<rparr> \<in> set (calls formatAmount data w)"
      by (simp add: calls_never_throws tr oe)
    have "\<exists>s. returned (formatAmount \<lparr>amount = n, region = region data, includeTaxes = False\<rparr>) s \<and>
              rows_labelled ''Discount'' out =
                [\<lparr>label = ''Discount'', testid = ''cart-discount'', raw = n, shown = ''- '' @ s\<rparr>]"
      if "renders formatAmount data w out" for out
    proof -
      from rows_labelled_CartTotals[OF that] obtain s2 where
        "truthy (discount_total data) \<longrightarrow> returned (getAmount formatAmount data (discount_total data)) s2"
        "rows_labelled ''Discount'' out =
         (if truthy (discount_total data)
          then [\<lparr>label = ''Discount'', testid = ''cart-discount'',
                 raw = or_else (discount_total data) (Num 0), shown = ''- '' @ s2\<rparr>]
          else [])"
        by (elim exE conjE)
      then show ?thesis
        using tr oe by (intro exI[of _ s2]) (simp add: getAmount_def)
    qed
    then have "\<forall>out. renders formatAmount data w out \<longrightarrow>
         (\<exists>s. returned (formatAmount \<lparr>amount = n, region = region data, includeTaxes = False\<rparr>) s \<and>
              rows_labelled ''Discount'' out =
                [\<lparr>label = ''Discount'', testid = ''cart-discount'', raw = n, shown = ''- '' @ s\<rparr>])"
      by (intro allI impI)
    with c show ?thesis by (rule conjI)
  qed
  have g: "(never_throws formatAmount \<longrightarrow>
         \<lparr>amount = m, region = region data, includeTaxes = False\<rparr> \<in> set (calls formatAmount data w)) \<and>
      (\<forall>out. renders formatAmount data w out \<longrightarrow>
         (\<exists>s. returned (formatAmount \<lparr>amount = m, region = region data, includeTaxes = False\<rparr>) s \<and>
              rows_labelled ''Gift card'' out =
                [\<lparr>label = ''Gift card'', testid = ''cart-gift-card-amount'', raw = m,
                  shown = ''- '' @ s\<rparr>]))"
    if neg: "negative m \<and> gift_card_total data = Number m"
  proof -
    from neg negative_truthy[of m]
    have tr: "truthy (gift_card_total data)" and oe: "or_else (gift_card_total data) (Num 0) = m"
      by simp_all
    have c: "never_throws formatAmount \<longrightarrow>
         \<lparr>amount = m, region = region data, includeTaxes = False\<rparr> \<in> set (calls formatAmount data w)"
      by (simp add: calls_never_throws tr oe)
    have "\<exists>s. returned (formatAmount \<lparr>amount = m, region = region data, includeTaxes = False\<rparr>) s \<and>
              rows_labelled ''Gift card'' out =
                [\<lparr>label = ''Gift card'', testid = ''cart-gift-card-amount'', raw = m,
                  shown = ''- '' @ s\<rparr>]"
      if "renders formatAmount data w out" for out
    proof -
      from rows_labelled_CartTotals[OF that] obtain s5 where
        "truthy (gift_card_total data) \<longrightarrow> returned (getAmount formatAmount data (gift_card_total data)) s5"
        "rows_labelled ''Gift card'' out =
         (if truthy (gift_card_total data)
          then [\<lparr>label = ''Gift card'', testid = ''cart-gift-card-amount'',
                 raw = or_else (gift_card_total data) (Num 0), shown = ''- '' @ s5\<rparr>]
          else [])"
        by (elim exE conjE)
      then show ?thesis
        using tr oe by (intro exI[of _ s5]) (simp add: getAmount_def)
    qed
    then have "\<forall>out. renders formatAmount data w out \<longrightarrow>
         (\<exists>s. returned (formatAmount \<lparr>amount = m, region = region data, includeTaxes = False\<rparr>) s \<and>
              rows_labelled ''Gift card'' out =
                [\<lparr>label = ''Gift card'', testid = ''cart-gift-card-amount'', raw = m,
                  shown = ''- '' @ s\<rparr>])"
      by (intro allI impI)
    with c show ?thesis by (rule conjI)
  qed
  from d have D: "negative n \<and> discount_total data = Number n \<longrightarrow>
      (never_throws formatAmount \<longrightarrow>
         \<lparr>amount = n, region = region data, includeTaxes = False\<rparr> \<in> set (calls formatAmount data w)) \<and>
      (\<forall>out. renders formatAmount data w out \<longrightarrow>
         (\<exists>s. returned (formatAmount \<lparr>amount = n, region = region data, includeTaxes = False\<rparr>) s \<and>
              rows_labelled ''Discount'' out =
                [\<lparr>label = ''Discount'', testid = ''cart-discount'', raw = n, shown = ''- '' @ s\<rparr>]))"
    by (rule impI)
  from g have G: "negative m \<and> gift_card_total data = Number m \<longrightarrow>
      (never_throws formatAmount \<longrightarrow>
         \<lparr>amount = m, region = region data, includeTaxes = False\<rparr> \<in> set (calls formatAmount data w)) \<and>
      (\<forall>out. renders formatAmount data w out \<longrightarrow>
         (\<exists>s. returned (formatAmount \<lparr>amount = m, region = region data, includeTaxes = False\<rparr>) s \<and>
              rows_labelled ''Gift card'' out =
                [\<lparr>label = ''Gift card'', testid = ''cart-gift-card-amount'', raw = m,
                  shown = ''- '' @ s\<rparr>]))"
    by (rule impI)
  show ?thesis by (rule conjI[OF never_throws_renders_imp conjI[OF D G]])
qed

theorem negative_deduction_keeps_marker_witness:
  "never_throws sample_formatAmount \<and>
   negative (Num (- 200)) \<and> discount_total negative_cart = Number (Num (- 200)) \<and>
   negative (Num (- 5)) \<and> gift_card_total negative_cart = Number (Num (- 5)) \<and>
   \<lparr>amount = Num (- 200), region = ''$'', includeTaxes = False\<rparr>
     \<in> set (calls sample_formatAmount negative_cart 0) \<and>
   \<lparr>amount = Num (- 5), region = ''$'', includeTaxes = False\<rparr>
     \<in> set (calls sample_formatAmount negative_cart 0) \<and>
   (\<exists>out. renders sample_formatAmount negative_cart 0 out \<and>
      rows_labelled ''Discount'' out =
        [\<lparr>label = ''Discount'', testid = ''cart-discount'', raw = Num (- 200),
          shown = ''- -$200''\<rparr>] \<and>
      rows_labelled ''Gift card'' out =
        [\<lparr>label = ''Gift card'', testid = ''cart-gift-card-amount'', raw = Num (- 5),
          shown = ''- -$5''\<rparr>])"
proof -
  note t = negative_deduction_keeps_marker[of sample_formatAmount negative_cart 0 "Num (- 200)" "Num (- 5)"]
  have h: "negative (Num (- 200))" "discount_total negative_cart = Number (Num (- 200))"
      "negative (Num (- 5))" "gift_card_total negative_cart = Number (Num (- 5))"
    by (simp_all add: negative_cart_def)
  have reg: "region negative_cart = ''$''"
    by (simp add: negative_cart_def)
  from t[THEN conjunct1, THEN mp, OF never_throws_sample]
  obtain out where r: "renders sample_formatAmount negative_cart 0 out" ..
  note tD = t[THEN conjunct2, THEN conjunct1, THEN mp, OF conjI[OF h(1) h(2)]]
  note tG = t[THEN conjunct2, THEN conjunct2, THEN mp, OF conjI[OF h(3) h(4)]]
  note cD = tD[THEN conjunct1, THEN mp, OF never_throws_sample, unfolded reg]
  note cG = tG[THEN conjunct1, THEN mp, OF never_throws_sample, unfolded reg]
  note rD = tD[THEN conjunct2, THEN spec, THEN mp, OF r, unfolded reg]
  note rG = tG[THEN conjunct2, THEN spec, THEN mp, OF r, unfolded reg]
  have fD: "projr (fst (sample_formatAmount \<lparr>amount = Num (- 200), region = ''$'', includeTaxes = False\<rparr> 0)) = ''-$200''"
    by (simp add: sample_formatAmount_def decimal.simps)
  have fG: "projr (fst (sample_formatAmount \<lparr>amount = Num (- 5), region = ''$'', includeTaxes = False\<rparr> 0)) = ''-$5''"
    by (simp add: sample_formatAmount_def decimal.simps)
  from rD have rowD: "rows_labelled ''Discount'' out =
        [\<lparr>label = ''Discount'', testid = ''cart-discount'', raw = Num (- 200),
          shown = ''- -$200''\<rparr>]"
    unfolding returned_sample fD by simp
  from rG have rowG: "rows_labelled ''Gift card'' out =
        [\<lparr>label = ''Gift card'', testid = ''cart-gift-card-amount'', raw = Num (- 5),
          shown = ''- -$5''\<rparr>]"
    unfolding returned_sample fG by simp
  have "\<exists>out. renders sample_formatAmount negative_cart 0 out \<and>
      rows_labelled ''Discount'' out =
        [\<lparr>label = ''Discount'', testid = ''cart-discount'', raw = Num (- 200),
          shown = ''- -$200''\<rparr>] \<and>
      rows_labelled ''Gift card'' out =
        [\<lparr>label = ''Gift card'', testid = ''cart-gift-card-amount'', raw = Num (- 5),
          shown = ''- -$5''\<rparr>]"
    by (rule exI[of _ out]) (rule conjI[OF r conjI[OF rowD rowG]])
  with never_throws_sample h cD cG show ?thesis by simp
qed

text \<open>
  C10. A field that is \<open>NaN\<close> is treated as an absent one. The component passes 0 to
  the formatter for a fixed field that is \<open>NaN\<close> and makes no call for a Discount or Gift
  card that is \<open>NaN\<close>; the row of a fixed field that is \<open>NaN\<close> has the raw value 0 and
  the text the formatter returned for 0, and the Discount and Gift card rows are hidden.
  \<open>getAmount\<close> passes 0 for \<open>NaN\<close>, and the component computes the same with \<open>NaN\<close> as
  with \<open>undefined\<close> or \<open>null\<close> in that field (the same calls, the same tree).
\<close>

theorem NaN_treated_as_absent:
  "(never_throws formatAmount \<longrightarrow> (\<exists>out. renders formatAmount data w out)) \<and>
   (\<forall>out. renders formatAmount data w out \<longrightarrow>
      (subtotal data = Number NaN \<longrightarrow>
         (\<exists>s. returned (formatAmount \<lparr>amount = Num 0, region = region data, includeTaxes = False\<rparr>) s \<and>
              rows_labelled ''Subtotal'' out =
                [\<lparr>label = ''Subtotal'', testid = ''cart-subtotal'', raw = Num 0, shown = s\<rparr>])) \<and>
      (discount_total data = Number NaN \<longrightarrow> rows_labelled ''Discount'' out = []) \<and>
      (shipping_total data = Number NaN \<longrightarrow>
         (\<exists>s. returned (formatAmount \<lparr>amount = Num 0, region = region data, includeTaxes = False\<rparr>) s \<and>
              rows_labelled ''Shipping'' out =
                [\<lparr>label = ''Shipping'', testid = ''cart-shipping'', raw = Num 0, shown = s\<rparr>])) \<and>
      (tax_total data = Number NaN \<longrightarrow>
         (\<exists>s. returned (formatAmount \<lparr>amount = Num 0, region = region data, includeTaxes = False\<rparr>) s \<and>
              rows_labelled ''Taxes'' out =
                [\<lparr>label = ''Taxes'', testid = ''cart-taxes'', raw = Num 0, shown = s\<rparr>])) \<and>
      (gift_card_total data = Number NaN \<longrightarrow> rows_labelled ''Gift card'' out = []) \<and>
      (total data = Number NaN \<longrightarrow>
         (\<exists>s. returned (formatAmount \<lparr>amount = Num 0, region = region data, includeTaxes = False\<rparr>) s \<and>
              rows_labelled ''Total'' out =
                [\<lparr>label = ''Total'', testid = ''cart-total'', raw = Num 0, shown = s\<rparr>]))) \<and>
   (never_throws formatAmount \<longrightarrow>
      calls formatAmount data w =
        map (\<lambda>x. \<lparr>amount = x, region = region data, includeTaxes = False\<rparr>)
          ([if subtotal data = Number NaN then Num 0 else or_else (subtotal data) (Num 0)]
           @ (if discount_total data = Number NaN then []
            else if truthy (discount_total data) then [or_else (discount_total data) (Num 0)] else [])
           @ [if shipping_total data = Number NaN then Num 0 else or_else (shipping_total data) (Num 0),
              if tax_total data = Number NaN then Num 0 else or_else (tax_total data) (Num 0)]
           @ (if gift_card_total data = Number NaN then []
            else if truthy (gift_card_total data) then [or_else (gift_card_total data) (Num 0)] else [])
           @ [if total data = Number NaN then Num 0 else or_else (total data) (Num 0)])) \<and>
   getAmount formatAmount data (Number NaN) =
     formatAmount \<lparr>amount = Num 0, region = region data, includeTaxes = False\<rparr> \<and>
   CartTotals formatAmount (data\<lparr>subtotal := Number NaN\<rparr>) = CartTotals formatAmount (data\<lparr>subtotal := Undefined\<rparr>) \<and>
   CartTotals formatAmount (data\<lparr>subtotal := Number NaN\<rparr>) = CartTotals formatAmount (data\<lparr>subtotal := Null\<rparr>) \<and>
   CartTotals formatAmount (data\<lparr>discount_total := Number NaN\<rparr>) = CartTotals formatAmount (data\<lparr>discount_total := Undefined\<rparr>) \<and>
   CartTotals formatAmount (data\<lparr>discount_total := Number NaN\<rparr>) = CartTotals formatAmount (data\<lparr>discount_total := Null\<rparr>) \<and>
   CartTotals formatAmount (data\<lparr>gift_card_total := Number NaN\<rparr>) = CartTotals formatAmount (data\<lparr>gift_card_total := Undefined\<rparr>) \<and>
   CartTotals formatAmount (data\<lparr>gift_card_total := Number NaN\<rparr>) = CartTotals formatAmount (data\<lparr>gift_card_total := Null\<rparr>) \<and>
   CartTotals formatAmount (data\<lparr>tax_total := Number NaN\<rparr>) = CartTotals formatAmount (data\<lparr>tax_total := Undefined\<rparr>) \<and>
   CartTotals formatAmount (data\<lparr>tax_total := Number NaN\<rparr>) = CartTotals formatAmount (data\<lparr>tax_total := Null\<rparr>) \<and>
   CartTotals formatAmount (data\<lparr>shipping_total := Number NaN\<rparr>) = CartTotals formatAmount (data\<lparr>shipping_total := Undefined\<rparr>) \<and>
   CartTotals formatAmount (data\<lparr>shipping_total := Number NaN\<rparr>) = CartTotals formatAmount (data\<lparr>shipping_total := Null\<rparr>) \<and>
   CartTotals formatAmount (data\<lparr>total := Number NaN\<rparr>) = CartTotals formatAmount (data\<lparr>total := Undefined\<rparr>) \<and>
   CartTotals formatAmount (data\<lparr>total := Number NaN\<rparr>) = CartTotals formatAmount (data\<lparr>total := Null\<rparr>)"
proof -
  have eqs:
    "CartTotals formatAmount (data\<lparr>subtotal := Number NaN\<rparr>) = CartTotals formatAmount (data\<lparr>subtotal := Undefined\<rparr>)"
    "CartTotals formatAmount (data\<lparr>subtotal := Number NaN\<rparr>) = CartTotals formatAmount (data\<lparr>subtotal := Null\<rparr>)"
    "CartTotals formatAmount (data\<lparr>discount_total := Number NaN\<rparr>) = CartTotals formatAmount (data\<lparr>discount_total := Undefined\<rparr>)"
    "CartTotals formatAmount (data\<lparr>discount_total := Number NaN\<rparr>) = CartTotals formatAmount (data\<lparr>discount_total := Null\<rparr>)"
    "CartTotals formatAmount (data\<lparr>gift_card_total := Number NaN\<rparr>) = CartTotals formatAmount (data\<lparr>gift_card_total := Undefined\<rparr>)"
    "CartTotals formatAmount (data\<lparr>gift_card_total := Number NaN\<rparr>) = CartTotals formatAmount (data\<lparr>gift_card_total := Null\<rparr>)"
    "CartTotals formatAmount (data\<lparr>tax_total := Number NaN\<rparr>) = CartTotals formatAmount (data\<lparr>tax_total := Undefined\<rparr>)"
    "CartTotals formatAmount (data\<lparr>tax_total := Number NaN\<rparr>) = CartTotals formatAmount (data\<lparr>tax_total := Null\<rparr>)"
    "CartTotals formatAmount (data\<lparr>shipping_total := Number NaN\<rparr>) = CartTotals formatAmount (data\<lparr>shipping_total := Undefined\<rparr>)"
    "CartTotals formatAmount (data\<lparr>shipping_total := Number NaN\<rparr>) = CartTotals formatAmount (data\<lparr>shipping_total := Null\<rparr>)"
    "CartTotals formatAmount (data\<lparr>total := Number NaN\<rparr>) = CartTotals formatAmount (data\<lparr>total := Undefined\<rparr>)"
    "CartTotals formatAmount (data\<lparr>total := Number NaN\<rparr>) = CartTotals formatAmount (data\<lparr>total := Null\<rparr>)"
    by (simp_all add: CartTotals_def getAmount_def)
  have ga: "getAmount formatAmount data (Number NaN) =
     formatAmount \<lparr>amount = Num 0, region = region data, includeTaxes = False\<rparr>"
    by (simp add: getAmount_def)
  have "(subtotal data = Number NaN \<longrightarrow>
         (\<exists>s. returned (formatAmount \<lparr>amount = Num 0, region = region data, includeTaxes = False\<rparr>) s \<and>
              rows_labelled ''Subtotal'' out =
                [\<lparr>label = ''Subtotal'', testid = ''cart-subtotal'', raw = Num 0, shown = s\<rparr>])) \<and>
      (discount_total data = Number NaN \<longrightarrow> rows_labelled ''Discount'' out = []) \<and>
      (shipping_total data = Number NaN \<longrightarrow>
         (\<exists>s. returned (formatAmount \<lparr>amount = Num 0, region = region data, includeTaxes = False\<rparr>) s \<and>
              rows_labelled ''Shipping'' out =
                [\<lparr>label = ''Shipping'', testid = ''cart-shipping'', raw = Num 0, shown = s\<rparr>])) \<and>
      (tax_total data = Number NaN \<longrightarrow>
         (\<exists>s. returned (formatAmount \<lparr>amount = Num 0, region = region data, includeTaxes = False\<rparr>) s \<and>
              rows_labelled ''Taxes'' out =
                [\<lparr>label = ''Taxes'', testid = ''cart-taxes'', raw = Num 0, shown = s\<rparr>])) \<and>
      (gift_card_total data = Number NaN \<longrightarrow> rows_labelled ''Gift card'' out = []) \<and>
      (total data = Number NaN \<longrightarrow>
         (\<exists>s. returned (formatAmount \<lparr>amount = Num 0, region = region data, includeTaxes = False\<rparr>) s \<and>
              rows_labelled ''Total'' out =
                [\<lparr>label = ''Total'', testid = ''cart-total'', raw = Num 0, shown = s\<rparr>]))"
    if "renders formatAmount data w out" for out
  proof -
    from rows_labelled_CartTotals[OF that] obtain s1 s2 s3 s4 s5 s6 where
      ret: "returned (getAmount formatAmount data (subtotal data)) s1"
        "returned (getAmount formatAmount data (shipping_total data)) s3"
        "returned (getAmount formatAmount data (tax_total data)) s4"
        "returned (getAmount formatAmount data (total data)) s6"
      and
      rows: "rows_labelled ''Subtotal'' out =
         [\<lparr>label = ''Subtotal'', testid = ''cart-subtotal'',
           raw = or_else (subtotal data) (Num 0), shown = s1\<rparr>]"
        "rows_labelled ''Discount'' out =
         (if truthy (discount_total data)
          then [\<lparr>label = ''Discount'', testid = ''cart-discount'',
                 raw = or_else (discount_total data) (Num 0), shown = ''- '' @ s2\<rparr>]
          else [])"
        "rows_labelled ''Shipping'' out =
         [\<lparr>label = ''Shipping'', testid = ''cart-shipping'',
           raw = or_else (shipping_total data) (Num 0), shown = s3\<rparr>]"
        "rows_labelled ''Taxes'' out =
         [\<lparr>label = ''Taxes'', testid = ''cart-taxes'',
           raw = or_else (tax_total data) (Num 0), shown = s4\<rparr>]"
        "rows_labelled ''Gift card'' out =
         (if truthy (gift_card_total data)
          then [\<lparr>label = ''Gift card'', testid = ''cart-gift-card-amount'',
                 raw = or_else (gift_card_total data) (Num 0), shown = ''- '' @ s5\<rparr>]
          else [])"
        "rows_labelled ''Total'' out =
         [\<lparr>label = ''Total'', testid = ''cart-total'',
           raw = or_else (total data) (Num 0), shown = s6\<rparr>]"
      by (elim exE conjE)
    have r1: "(subtotal data = Number NaN \<longrightarrow>
         (\<exists>s. returned (formatAmount \<lparr>amount = Num 0, region = region data, includeTaxes = False\<rparr>) s \<and>
              rows_labelled ''Subtotal'' out =
                [\<lparr>label = ''Subtotal'', testid = ''cart-subtotal'', raw = Num 0, shown = s\<rparr>]))"
      using ret(1) by (intro impI exI[of _ s1]) (simp add: rows getAmount_def)
    have r2: "(shipping_total data = Number NaN \<longrightarrow>
         (\<exists>s. returned (formatAmount \<lparr>amount = Num 0, region = region data, includeTaxes = False\<rparr>) s \<and>
              rows_labelled ''Shipping'' out =
                [\<lparr>label = ''Shipping'', testid = ''cart-shipping'', raw = Num 0, shown = s\<rparr>]))"
      using ret(2) by (intro impI exI[of _ s3]) (simp add: rows getAmount_def)
    have r3: "(tax_total data = Number NaN \<longrightarrow>
         (\<exists>s. returned (formatAmount \<lparr>amount = Num 0, region = region data, includeTaxes = False\<rparr>) s \<and>
              rows_labelled ''Taxes'' out =
                [\<lparr>label = ''Taxes'', testid = ''cart-taxes'', raw = Num 0, shown = s\<rparr>]))"
      using ret(3) by (intro impI exI[of _ s4]) (simp add: rows getAmount_def)
    have r4: "(total data = Number NaN \<longrightarrow>
         (\<exists>s. returned (formatAmount \<lparr>amount = Num 0, region = region data, includeTaxes = False\<rparr>) s \<and>
              rows_labelled ''Total'' out =
                [\<lparr>label = ''Total'', testid = ''cart-total'', raw = Num 0, shown = s\<rparr>]))"
      using ret(4) by (intro impI exI[of _ s6]) (simp add: rows getAmount_def)
    have d: "discount_total data = Number NaN \<longrightarrow> rows_labelled ''Discount'' out = []"
      by (simp add: rows)
    have g: "gift_card_total data = Number NaN \<longrightarrow> rows_labelled ''Gift card'' out = []"
      by (simp add: rows)
    show ?thesis by (rule conjI[OF r1 conjI[OF d conjI[OF r2 conjI[OF r3 conjI[OF g r4]]]]])
  qed
  then have rw: "\<forall>out. renders formatAmount data w out \<longrightarrow>
      (subtotal data = Number NaN \<longrightarrow>
         (\<exists>s. returned (formatAmount \<lparr>amount = Num 0, region = region data, includeTaxes = False\<rparr>) s \<and>
              rows_labelled ''Subtotal'' out =
                [\<lparr>label = ''Subtotal'', testid = ''cart-subtotal'', raw = Num 0, shown = s\<rparr>])) \<and>
      (discount_total data = Number NaN \<longrightarrow> rows_labelled ''Discount'' out = []) \<and>
      (shipping_total data = Number NaN \<longrightarrow>
         (\<exists>s. returned (formatAmount \<lparr>amount = Num 0, region = region data, includeTaxes = False\<rparr>) s \<and>
              rows_labelled ''Shipping'' out =
                [\<lparr>label = ''Shipping'', testid = ''cart-shipping'', raw = Num 0, shown = s\<rparr>])) \<and>
      (tax_total data = Number NaN \<longrightarrow>
         (\<exists>s. returned (formatAmount \<lparr>amount = Num 0, region = region data, includeTaxes = False\<rparr>) s \<and>
              rows_labelled ''Taxes'' out =
                [\<lparr>label = ''Taxes'', testid = ''cart-taxes'', raw = Num 0, shown = s\<rparr>])) \<and>
      (gift_card_total data = Number NaN \<longrightarrow> rows_labelled ''Gift card'' out = []) \<and>
      (total data = Number NaN \<longrightarrow>
         (\<exists>s. returned (formatAmount \<lparr>amount = Num 0, region = region data, includeTaxes = False\<rparr>) s \<and>
              rows_labelled ''Total'' out =
                [\<lparr>label = ''Total'', testid = ''cart-total'', raw = Num 0, shown = s\<rparr>]))"
    by (intro allI impI)
  have fx: "(if f = Number NaN then Num 0 else or_else f (Num 0)) = or_else f (Num 0)" for f
    by simp
  have op: "(if f = Number NaN then [] else if truthy f then [or_else f (Num 0)] else []) =
      (if truthy f then [or_else f (Num 0)] else [])" for f
    by simp
  have cl: "never_throws formatAmount \<longrightarrow>
      calls formatAmount data w =
        map (\<lambda>x. \<lparr>amount = x, region = region data, includeTaxes = False\<rparr>)
          ([if subtotal data = Number NaN then Num 0 else or_else (subtotal data) (Num 0)]
           @ (if discount_total data = Number NaN then []
            else if truthy (discount_total data) then [or_else (discount_total data) (Num 0)] else [])
           @ [if shipping_total data = Number NaN then Num 0 else or_else (shipping_total data) (Num 0),
              if tax_total data = Number NaN then Num 0 else or_else (tax_total data) (Num 0)]
           @ (if gift_card_total data = Number NaN then []
            else if truthy (gift_card_total data) then [or_else (gift_card_total data) (Num 0)] else [])
           @ [if total data = Number NaN then Num 0 else or_else (total data) (Num 0)])"
    unfolding fx op by (simp add: calls_never_throws)
  show ?thesis
    by (rule conjI[OF never_throws_renders_imp conjI[OF rw conjI[OF cl conjI[OF ga conjI[OF eqs(1)
          conjI[OF eqs(2) conjI[OF eqs(3) conjI[OF eqs(4) conjI[OF eqs(5) conjI[OF eqs(6)
          conjI[OF eqs(7) conjI[OF eqs(8) conjI[OF eqs(9) conjI[OF eqs(10)
          conjI[OF eqs(11) eqs(12)]]]]]]]]]]]]]]])
qed

theorem NaN_treated_as_absent_witness:
  "never_throws sample_formatAmount \<and>
   subtotal nan_cart = Number NaN \<and> discount_total nan_cart = Number NaN \<and>
   shipping_total nan_cart = Number NaN \<and> tax_total nan_cart = Number NaN \<and>
   gift_card_total nan_cart = Number NaN \<and> total nan_cart = Number NaN \<and>
   calls sample_formatAmount nan_cart 0 =
     [\<lparr>amount = Num 0, region = ''$'', includeTaxes = False\<rparr>,
      \<lparr>amount = Num 0, region = ''$'', includeTaxes = False\<rparr>,
      \<lparr>amount = Num 0, region = ''$'', includeTaxes = False\<rparr>,
      \<lparr>amount = Num 0, region = ''$'', includeTaxes = False\<rparr>] \<and>
   (\<exists>out. renders sample_formatAmount nan_cart 0 out \<and>
      rows_labelled ''Subtotal'' out = [\<lparr>label = ''Subtotal'', testid = ''cart-subtotal'', raw = Num 0, shown = ''$0''\<rparr>] \<and>
      rows_labelled ''Discount'' out = [] \<and>
      rows_labelled ''Shipping'' out = [\<lparr>label = ''Shipping'', testid = ''cart-shipping'', raw = Num 0, shown = ''$0''\<rparr>] \<and>
      rows_labelled ''Taxes'' out = [\<lparr>label = ''Taxes'', testid = ''cart-taxes'', raw = Num 0, shown = ''$0''\<rparr>] \<and>
      rows_labelled ''Gift card'' out = [] \<and>
      rows_labelled ''Total'' out = [\<lparr>label = ''Total'', testid = ''cart-total'', raw = Num 0, shown = ''$0''\<rparr>])"
proof -
  note t = NaN_treated_as_absent[of sample_formatAmount nan_cart 0]
  have h: "subtotal nan_cart = Number NaN" "discount_total nan_cart = Number NaN"
      "shipping_total nan_cart = Number NaN" "tax_total nan_cart = Number NaN"
      "gift_card_total nan_cart = Number NaN" "total nan_cart = Number NaN"
    by (simp_all add: nan_cart_def)
  have reg: "region nan_cart = ''$''"
    by (simp add: nan_cart_def)
  have f0: "projr (fst (sample_formatAmount \<lparr>amount = Num 0, region = ''$'', includeTaxes = False\<rparr> 0)) = ''$0''"
    by (simp add: sample_formatAmount_def decimal.simps)
  from t[THEN conjunct1, THEN mp, OF never_throws_sample]
  obtain out where r: "renders sample_formatAmount nan_cart 0 out" ..
  note p = t[THEN conjunct2, THEN conjunct1, THEN spec, THEN mp, OF r]
  from t[THEN conjunct2, THEN conjunct2, THEN conjunct1, THEN mp, OF never_throws_sample]
  have c: "calls sample_formatAmount nan_cart 0 =
     [\<lparr>amount = Num 0, region = ''$'', includeTaxes = False\<rparr>,
      \<lparr>amount = Num 0, region = ''$'', includeTaxes = False\<rparr>,
      \<lparr>amount = Num 0, region = ''$'', includeTaxes = False\<rparr>,
      \<lparr>amount = Num 0, region = ''$'', includeTaxes = False\<rparr>]"
    by (simp add: h reg)
  from p[THEN conjunct1, THEN mp, OF h(1)]
  have w1: "rows_labelled ''Subtotal'' out = [\<lparr>label = ''Subtotal'', testid = ''cart-subtotal'', raw = Num 0, shown = ''$0''\<rparr>]"
    unfolding reg returned_sample f0 by simp
  note w2 = p[THEN conjunct2, THEN conjunct1, THEN mp, OF h(2)]
  from p[THEN conjunct2, THEN conjunct2, THEN conjunct1, THEN mp, OF h(3)]
  have w3: "rows_labelled ''Shipping'' out = [\<lparr>label = ''Shipping'', testid = ''cart-shipping'', raw = Num 0, shown = ''$0''\<rparr>]"
    unfolding reg returned_sample f0 by simp
  from p[THEN conjunct2, THEN conjunct2, THEN conjunct2, THEN conjunct1, THEN mp, OF h(4)]
  have w4: "rows_labelled ''Taxes'' out = [\<lparr>label = ''Taxes'', testid = ''cart-taxes'', raw = Num 0, shown = ''$0''\<rparr>]"
    unfolding reg returned_sample f0 by simp
  note w5 = p[THEN conjunct2, THEN conjunct2, THEN conjunct2, THEN conjunct2, THEN conjunct1, THEN mp, OF h(5)]
  from p[THEN conjunct2, THEN conjunct2, THEN conjunct2, THEN conjunct2, THEN conjunct2, THEN mp, OF h(6)]
  have w6: "rows_labelled ''Total'' out = [\<lparr>label = ''Total'', testid = ''cart-total'', raw = Num 0, shown = ''$0''\<rparr>]"
    unfolding reg returned_sample f0 by simp
  have e: "\<exists>out. renders sample_formatAmount nan_cart 0 out \<and>
      rows_labelled ''Subtotal'' out = [\<lparr>label = ''Subtotal'', testid = ''cart-subtotal'', raw = Num 0, shown = ''$0''\<rparr>] \<and>
      rows_labelled ''Discount'' out = [] \<and>
      rows_labelled ''Shipping'' out = [\<lparr>label = ''Shipping'', testid = ''cart-shipping'', raw = Num 0, shown = ''$0''\<rparr>] \<and>
      rows_labelled ''Taxes'' out = [\<lparr>label = ''Taxes'', testid = ''cart-taxes'', raw = Num 0, shown = ''$0''\<rparr>] \<and>
      rows_labelled ''Gift card'' out = [] \<and>
      rows_labelled ''Total'' out = [\<lparr>label = ''Total'', testid = ''cart-total'', raw = Num 0, shown = ''$0''\<rparr>]"
    by (rule exI[of _ out])
      (rule conjI[OF r conjI[OF w1 conjI[OF w2 conjI[OF w3 conjI[OF w4 conjI[OF w5 w6]]]]]])
  show ?thesis
    by (rule conjI[OF never_throws_sample conjI[OF h(1) conjI[OF h(2) conjI[OF h(3) conjI[OF h(4)
          conjI[OF h(5) conjI[OF h(6) conjI[OF c e]]]]]]]])
qed

lemma absent_falsy: "f \<in> {Null, Undefined} \<Longrightarrow> \<not> truthy f \<and> or_else f (Num 0) = Num 0"
  by auto

lemma succeeds_formatter: "\<forall>w. \<exists>s. fst (m w) = Inr s \<Longrightarrow> succeeds m"
  unfolding succeeds_def by (metis prod.collapse)

text \<open>
  C3. A monetary field that is \<open>null\<close> or \<open>undefined\<close> exposes the raw value 0: every row
  of that field has \<open>data-value\<close> 0 (one row for Subtotal, Shipping, Taxes and Total; none
  for Discount and Gift card, which are hidden). With all six fields absent and a
  formatter that returns for the amount 0 in this region, the component returns (no
  exception) exactly the four fixed rows, each with raw value 0 and the text the formatter
  returned for 0.
\<close>

theorem absent_fields_show_zero:
  "(\<forall>out. renders formatAmount data w out \<longrightarrow>
      (\<forall>(l, f) \<in> set monetary_fields. f data \<in> {Null, Undefined} \<longrightarrow>
         list_all (\<lambda>r. raw r = Num 0) (rows_labelled l out) \<and>
         length (rows_labelled l out) = (if l \<in> {''Discount'', ''Gift card''} then 0 else 1))) \<and>
   ((\<forall>(l, f) \<in> set monetary_fields. f data \<in> {Null, Undefined}) \<and>
    (\<forall>w. \<exists>s. fst (formatAmount \<lparr>amount = Num 0, region = region data, includeTaxes = False\<rparr> w) = Inr s) \<longrightarrow>
      (\<exists>out s1 s3 s4 s6.
         renders formatAmount data w out \<and>
         returned (formatAmount \<lparr>amount = Num 0, region = region data, includeTaxes = False\<rparr>) s1 \<and>
         returned (formatAmount \<lparr>amount = Num 0, region = region data, includeTaxes = False\<rparr>) s3 \<and>
         returned (formatAmount \<lparr>amount = Num 0, region = region data, includeTaxes = False\<rparr>) s4 \<and>
         returned (formatAmount \<lparr>amount = Num 0, region = region data, includeTaxes = False\<rparr>) s6 \<and>
         rows_of out =
           [\<lparr>label = ''Subtotal'', testid = ''cart-subtotal'', raw = Num 0, shown = s1\<rparr>,
            \<lparr>label = ''Shipping'', testid = ''cart-shipping'', raw = Num 0, shown = s3\<rparr>,
            \<lparr>label = ''Taxes'', testid = ''cart-taxes'', raw = Num 0, shown = s4\<rparr>,
            \<lparr>label = ''Total'', testid = ''cart-total'', raw = Num 0, shown = s6\<rparr>]))"
proof -
  have a: "\<forall>(l, f) \<in> set monetary_fields. f data \<in> {Null, Undefined} \<longrightarrow>
         list_all (\<lambda>r. raw r = Num 0) (rows_labelled l out) \<and>
         length (rows_labelled l out) = (if l \<in> {''Discount'', ''Gift card''} then 0 else 1)"
    if "renders formatAmount data w out" for out
  proof -
    from rows_labelled_CartTotals[OF that] obtain s1 s2 s3 s4 s5 s6 where
      rows: "rows_labelled ''Subtotal'' out =
         [\<lparr>label = ''Subtotal'', testid = ''cart-subtotal'',
           raw = or_else (subtotal data) (Num 0), shown = s1\<rparr>]"
        "rows_labelled ''Discount'' out =
         (if truthy (discount_total data)
          then [\<lparr>label = ''Discount'', testid = ''cart-discount'',
                 raw = or_else (discount_total data) (Num 0), shown = ''- '' @ s2\<rparr>]
          else [])"
        "rows_labelled ''Shipping'' out =
         [\<lparr>label = ''Shipping'', testid = ''cart-shipping'',
           raw = or_else (shipping_total data) (Num 0), shown = s3\<rparr>]"
        "rows_labelled ''Taxes'' out =
         [\<lparr>label = ''Taxes'', testid = ''cart-taxes'',
           raw = or_else (tax_total data) (Num 0), shown = s4\<rparr>]"
        "rows_labelled ''Gift card'' out =
         (if truthy (gift_card_total data)
          then [\<lparr>label = ''Gift card'', testid = ''cart-gift-card-amount'',
                 raw = or_else (gift_card_total data) (Num 0), shown = ''- '' @ s5\<rparr>]
          else [])"
        "rows_labelled ''Total'' out =
         [\<lparr>label = ''Total'', testid = ''cart-total'',
           raw = or_else (total data) (Num 0), shown = s6\<rparr>]"
      by (elim exE conjE)
    show ?thesis
      unfolding monetary_fields_def by (simp add: rows)
  qed
  have b: "\<exists>out s1 s3 s4 s6.
         renders formatAmount data w out \<and>
         returned (formatAmount \<lparr>amount = Num 0, region = region data, includeTaxes = False\<rparr>) s1 \<and>
         returned (formatAmount \<lparr>amount = Num 0, region = region data, includeTaxes = False\<rparr>) s3 \<and>
         returned (formatAmount \<lparr>amount = Num 0, region = region data, includeTaxes = False\<rparr>) s4 \<and>
         returned (formatAmount \<lparr>amount = Num 0, region = region data, includeTaxes = False\<rparr>) s6 \<and>
         rows_of out =
           [\<lparr>label = ''Subtotal'', testid = ''cart-subtotal'', raw = Num 0, shown = s1\<rparr>,
            \<lparr>label = ''Shipping'', testid = ''cart-shipping'', raw = Num 0, shown = s3\<rparr>,
            \<lparr>label = ''Taxes'', testid = ''cart-taxes'', raw = Num 0, shown = s4\<rparr>,
            \<lparr>label = ''Total'', testid = ''cart-total'', raw = Num 0, shown = s6\<rparr>]"
    if h: "(\<forall>(l, f) \<in> set monetary_fields. f data \<in> {Null, Undefined}) \<and>
      (\<forall>w. \<exists>s. fst (formatAmount \<lparr>amount = Num 0, region = region data, includeTaxes = False\<rparr> w) = Inr s)"
  proof -
    from h have abs: "subtotal data \<in> {Null, Undefined}" "discount_total data \<in> {Null, Undefined}"
        "shipping_total data \<in> {Null, Undefined}" "tax_total data \<in> {Null, Undefined}"
        "gift_card_total data \<in> {Null, Undefined}" "total data \<in> {Null, Undefined}"
      by (simp_all add: monetary_fields_def)
    note f = abs[THEN absent_falsy]
    from h have z: "succeeds (formatAmount \<lparr>amount = Num 0, region = region data, includeTaxes = False\<rparr>)"
      by (intro succeeds_formatter) simp
    have ga: "getAmount formatAmount data (subtotal data) =
          formatAmount \<lparr>amount = Num 0, region = region data, includeTaxes = False\<rparr>"
        "getAmount formatAmount data (shipping_total data) =
          formatAmount \<lparr>amount = Num 0, region = region data, includeTaxes = False\<rparr>"
        "getAmount formatAmount data (tax_total data) =
          formatAmount \<lparr>amount = Num 0, region = region data, includeTaxes = False\<rparr>"
        "getAmount formatAmount data (total data) =
          formatAmount \<lparr>amount = Num 0, region = region data, includeTaxes = False\<rparr>"
      using f by (simp_all add: getAmount_def)
    have "succeeds (CartTotals formatAmount data)"
      unfolding CartTotals_def ga
      by (intro succeeds_bindE succeeds_returnE z; simp add: f succeeds_returnE)
    then obtain out where r: "renders formatAmount data w out"
      unfolding succeeds_def renders_def by blast
    from rows_of_CartTotals[OF r] obtain s1 s3 s4 s6 where
      "returned (formatAmount \<lparr>amount = Num 0, region = region data, includeTaxes = False\<rparr>) s1"
      "returned (formatAmount \<lparr>amount = Num 0, region = region data, includeTaxes = False\<rparr>) s3"
      "returned (formatAmount \<lparr>amount = Num 0, region = region data, includeTaxes = False\<rparr>) s4"
      "returned (formatAmount \<lparr>amount = Num 0, region = region data, includeTaxes = False\<rparr>) s6"
      "rows_of out =
           [\<lparr>label = ''Subtotal'', testid = ''cart-subtotal'', raw = Num 0, shown = s1\<rparr>,
            \<lparr>label = ''Shipping'', testid = ''cart-shipping'', raw = Num 0, shown = s3\<rparr>,
            \<lparr>label = ''Taxes'', testid = ''cart-taxes'', raw = Num 0, shown = s4\<rparr>,
            \<lparr>label = ''Total'', testid = ''cart-total'', raw = Num 0, shown = s6\<rparr>]"
      unfolding ga by (elim exE conjE) (simp add: f)
    with r show ?thesis
      by (intro exI[of _ out] exI[of _ s1] exI[of _ s3] exI[of _ s4] exI[of _ s6] conjI)
  qed
  from a have A: "\<forall>out. renders formatAmount data w out \<longrightarrow>
      (\<forall>(l, f) \<in> set monetary_fields. f data \<in> {Null, Undefined} \<longrightarrow>
         list_all (\<lambda>r. raw r = Num 0) (rows_labelled l out) \<and>
         length (rows_labelled l out) = (if l \<in> {''Discount'', ''Gift card''} then 0 else 1))"
    by (intro allI impI)
  from b have B: "(\<forall>(l, f) \<in> set monetary_fields. f data \<in> {Null, Undefined}) \<and>
    (\<forall>w. \<exists>s. fst (formatAmount \<lparr>amount = Num 0, region = region data, includeTaxes = False\<rparr> w) = Inr s) \<longrightarrow>
      (\<exists>out s1 s3 s4 s6.
         renders formatAmount data w out \<and>
         returned (formatAmount \<lparr>amount = Num 0, region = region data, includeTaxes = False\<rparr>) s1 \<and>
         returned (formatAmount \<lparr>amount = Num 0, region = region data, includeTaxes = False\<rparr>) s3 \<and>
         returned (formatAmount \<lparr>amount = Num 0, region = region data, includeTaxes = False\<rparr>) s4 \<and>
         returned (formatAmount \<lparr>amount = Num 0, region = region data, includeTaxes = False\<rparr>) s6 \<and>
         rows_of out =
           [\<lparr>label = ''Subtotal'', testid = ''cart-subtotal'', raw = Num 0, shown = s1\<rparr>,
            \<lparr>label = ''Shipping'', testid = ''cart-shipping'', raw = Num 0, shown = s3\<rparr>,
            \<lparr>label = ''Taxes'', testid = ''cart-taxes'', raw = Num 0, shown = s4\<rparr>,
            \<lparr>label = ''Total'', testid = ''cart-total'', raw = Num 0, shown = s6\<rparr>])"
    by (rule impI)
  show ?thesis by (rule conjI[OF A B])
qed

theorem absent_fields_show_zero_witness:
  "subtotal scenario_C = Null \<and> discount_total scenario_C = Null \<and>
   shipping_total scenario_C = Null \<and> tax_total scenario_C = Null \<and>
   gift_card_total scenario_C = Null \<and> total scenario_C = Null \<and>
   (\<forall>w. \<exists>s. fst (sample_formatAmount \<lparr>amount = Num 0, region = ''$'', includeTaxes = False\<rparr> w) = Inr s) \<and>
   (\<exists>out. renders sample_formatAmount scenario_C 0 out \<and>
      rows_of out =
        [\<lparr>label = ''Subtotal'', testid = ''cart-subtotal'', raw = Num 0, shown = ''$0''\<rparr>,
         \<lparr>label = ''Shipping'', testid = ''cart-shipping'', raw = Num 0, shown = ''$0''\<rparr>,
         \<lparr>label = ''Taxes'', testid = ''cart-taxes'', raw = Num 0, shown = ''$0''\<rparr>,
         \<lparr>label = ''Total'', testid = ''cart-total'', raw = Num 0, shown = ''$0''\<rparr>] \<and>
      list_all (\<lambda>r. raw r = Num 0) (rows_labelled ''Subtotal'' out) \<and>
      length (rows_labelled ''Subtotal'' out) = 1 \<and>
      length (rows_labelled ''Discount'' out) = 0)"
proof -
  note t = absent_fields_show_zero[of sample_formatAmount scenario_C 0]
  have h: "subtotal scenario_C = Null" "discount_total scenario_C = Null"
      "shipping_total scenario_C = Null" "tax_total scenario_C = Null"
      "gift_card_total scenario_C = Null" "total scenario_C = Null"
    by (simp_all add: scenario_C_def)
  have reg: "region scenario_C = ''$''"
    by (simp add: scenario_C_def)
  have abs: "\<forall>(l, f) \<in> set monetary_fields. f scenario_C \<in> {Null, Undefined}"
    by (simp add: monetary_fields_def h)
  have z: "\<forall>w. \<exists>s. fst (sample_formatAmount \<lparr>amount = Num 0, region = ''$'', includeTaxes = False\<rparr> w) = Inr s"
    by (simp add: sample_formatAmount_def)
  have f0: "projr (fst (sample_formatAmount \<lparr>amount = Num 0, region = ''$'', includeTaxes = False\<rparr> 0)) = ''$0''"
    by (simp add: sample_formatAmount_def decimal.simps)
  from t[THEN conjunct2, unfolded reg, THEN mp, OF conjI[OF abs z]]
  obtain out s1 s3 s4 s6 where r: "renders sample_formatAmount scenario_C 0 out"
    and ret: "returned (sample_formatAmount \<lparr>amount = Num 0, region = ''$'', includeTaxes = False\<rparr>) s1"
      "returned (sample_formatAmount \<lparr>amount = Num 0, region = ''$'', includeTaxes = False\<rparr>) s3"
      "returned (sample_formatAmount \<lparr>amount = Num 0, region = ''$'', includeTaxes = False\<rparr>) s4"
      "returned (sample_formatAmount \<lparr>amount = Num 0, region = ''$'', includeTaxes = False\<rparr>) s6"
    and rows: "rows_of out =
           [\<lparr>label = ''Subtotal'', testid = ''cart-subtotal'', raw = Num 0, shown = s1\<rparr>,
            \<lparr>label = ''Shipping'', testid = ''cart-shipping'', raw = Num 0, shown = s3\<rparr>,
            \<lparr>label = ''Taxes'', testid = ''cart-taxes'', raw = Num 0, shown = s4\<rparr>,
            \<lparr>label = ''Total'', testid = ''cart-total'', raw = Num 0, shown = s6\<rparr>]"
    by (elim exE conjE)
  from ret have s: "s1 = ''$0''" "s3 = ''$0''" "s4 = ''$0''" "s6 = ''$0''"
    unfolding returned_sample f0 by simp_all
  from t[THEN conjunct1, THEN spec, THEN mp, OF r]
  have a: "list_all (\<lambda>r. raw r = Num 0) (rows_labelled ''Subtotal'' out)"
      "length (rows_labelled ''Subtotal'' out) = 1"
      "length (rows_labelled ''Discount'' out) = 0"
    by (simp_all add: monetary_fields_def h)
  have "\<exists>out. renders sample_formatAmount scenario_C 0 out \<and>
      rows_of out =
        [\<lparr>label = ''Subtotal'', testid = ''cart-subtotal'', raw = Num 0, shown = ''$0''\<rparr>,
         \<lparr>label = ''Shipping'', testid = ''cart-shipping'', raw = Num 0, shown = ''$0''\<rparr>,
         \<lparr>label = ''Taxes'', testid = ''cart-taxes'', raw = Num 0, shown = ''$0''\<rparr>,
         \<lparr>label = ''Total'', testid = ''cart-total'', raw = Num 0, shown = ''$0''\<rparr>] \<and>
      list_all (\<lambda>r. raw r = Num 0) (rows_labelled ''Subtotal'' out) \<and>
      length (rows_labelled ''Subtotal'' out) = 1 \<and>
      length (rows_labelled ''Discount'' out) = 0"
    using r rows[unfolded s] a by (intro exI[of _ out] conjI)
  with h z show ?thesis by (intro conjI)
qed

lemma traced_same_result:
  "fst (CartTotals (traced fmt) d ([], w)) = fst (CartTotals fmt d w)"
  using mirrors_CartTotals[of fmt d] unfolding mirrors_def by (simp del: split_paired_All)

text \<open>
  C7. The component reaches the world only through \<open>formatAmount\<close>, its one parameter of
  that kind. Every call it makes, whatever the formatter does, passes the region of
  \<open>data\<close> and \<open>includeTaxes = false\<close>; observing the calls changes no result. With a
  formatter that never throws the calls are, in order, those for the subtotal, the
  discount when shown, the shipping, the taxes, the gift card when shown, and the total.
\<close>

theorem calls_pass_region_and_no_taxes:
  "(\<forall>a \<in> set (calls formatAmount data w).
      format_args.region a = region data \<and> includeTaxes a = False) \<and>
   fst (CartTotals (traced formatAmount) data ([], w)) = fst (CartTotals formatAmount data w) \<and>
   (never_throws formatAmount \<longrightarrow>
      map amount (calls formatAmount data w) =
        [or_else (subtotal data) (Num 0)]
        @ (if truthy (discount_total data) then [or_else (discount_total data) (Num 0)] else [])
        @ [or_else (shipping_total data) (Num 0), or_else (tax_total data) (Num 0)]
        @ (if truthy (gift_card_total data) then [or_else (gift_card_total data) (Num 0)] else [])
        @ [or_else (total data) (Num 0)])"
proof -
  have "list_all (\<lambda>a. format_args.region a = region data \<and> includeTaxes a = False)
          (calls formatAmount data w)"
    by (rule list_all_calls) simp
  then have a: "\<forall>a \<in> set (calls formatAmount data w).
      format_args.region a = region data \<and> includeTaxes a = False"
    by (simp only: list_all_iff)
  have c: "never_throws formatAmount \<longrightarrow>
      map amount (calls formatAmount data w) =
        [or_else (subtotal data) (Num 0)]
        @ (if truthy (discount_total data) then [or_else (discount_total data) (Num 0)] else [])
        @ [or_else (shipping_total data) (Num 0), or_else (tax_total data) (Num 0)]
        @ (if truthy (gift_card_total data) then [or_else (gift_card_total data) (Num 0)] else [])
        @ [or_else (total data) (Num 0)]"
    by (simp add: calls_never_throws)
  show ?thesis by (rule conjI[OF a conjI[OF traced_same_result c]])
qed

theorem calls_pass_region_and_no_taxes_witness:
  "never_throws sample_formatAmount \<and>
   calls sample_formatAmount scenario_B 0 =
     [\<lparr>amount = Num 1000, region = ''$'', includeTaxes = False\<rparr>,
      \<lparr>amount = Num 200, region = ''$'', includeTaxes = False\<rparr>,
      \<lparr>amount = Num 0, region = ''$'', includeTaxes = False\<rparr>,
      \<lparr>amount = Num 80, region = ''$'', includeTaxes = False\<rparr>,
      \<lparr>amount = Num 880, region = ''$'', includeTaxes = False\<rparr>] \<and>
   list_all (\<lambda>a. format_args.region a = region scenario_B \<and> includeTaxes a = False)
     (calls sample_formatAmount scenario_B 0) \<and>
   map amount (calls sample_formatAmount scenario_B 0) = [Num 1000, Num 200, Num 0, Num 80, Num 880]"
proof -
  note t = calls_pass_region_and_no_taxes[of sample_formatAmount scenario_B 0]
  have cs: "calls sample_formatAmount scenario_B 0 =
     [\<lparr>amount = Num 1000, region = ''$'', includeTaxes = False\<rparr>,
      \<lparr>amount = Num 200, region = ''$'', includeTaxes = False\<rparr>,
      \<lparr>amount = Num 0, region = ''$'', includeTaxes = False\<rparr>,
      \<lparr>amount = Num 80, region = ''$'', includeTaxes = False\<rparr>,
      \<lparr>amount = Num 880, region = ''$'', includeTaxes = False\<rparr>]"
    by (simp add: calls_never_throws[OF never_throws_sample] scenario_B_def)
  from t[THEN conjunct1]
  have la: "list_all (\<lambda>a. format_args.region a = region scenario_B \<and> includeTaxes a = False)
     (calls sample_formatAmount scenario_B 0)"
    by (simp only: list_all_iff)
  from t[THEN conjunct2, THEN conjunct2, THEN mp, OF never_throws_sample]
  have am: "map amount (calls sample_formatAmount scenario_B 0) = [Num 1000, Num 200, Num 0, Num 80, Num 880]"
    by (simp add: scenario_B_def)
  show ?thesis by (rule conjI[OF never_throws_sample conjI[OF cs conjI[OF la am]]])
qed

lemma renders_iff: "renders fmt d w out \<longleftrightarrow> fst (CartTotals fmt d w) = Inr out"
  unfolding renders_def by (metis fst_conv prod.collapse)

text \<open>
  C8. With a referentially transparent formatter the component is deterministic: called
  in any two worlds, on the same record, it returns the same result (the same tree, so
  the same rows with their labels, raw values and texts, or the same thrown value); a
  second call after the first returns what the first returned.
\<close>

theorem rendering_deterministic:
  "transparent formatAmount \<Longrightarrow>
     fst (CartTotals formatAmount data w1) = fst (CartTotals formatAmount data w2) \<and>
     fst (CartTotals formatAmount data (snd (CartTotals formatAmount data w1))) =
       fst (CartTotals formatAmount data w1) \<and>
     (\<forall>out1 out2. renders formatAmount data w1 out1 \<and> renders formatAmount data w2 out2 \<longrightarrow>
        out1 = out2 \<and> rows_of out1 = rows_of out2)"
proof -
  assume "transparent formatAmount"
  then have wf: "world_free (CartTotals formatAmount data)"
    by (rule world_free_CartTotals)
  then have eq: "fst (CartTotals formatAmount data u) = fst (CartTotals formatAmount data v)" for u v
    unfolding world_free_def by simp
  have "out1 = out2 \<and> rows_of out1 = rows_of out2"
    if "renders formatAmount data w1 out1 \<and> renders formatAmount data w2 out2" for out1 out2
    using that eq[of w1 w2] by (auto simp: renders_iff)
  then have r: "\<forall>out1 out2. renders formatAmount data w1 out1 \<and> renders formatAmount data w2 out2 \<longrightarrow>
        out1 = out2 \<and> rows_of out1 = rows_of out2"
    by (intro allI impI)
  show ?thesis by (rule conjI[OF eq conjI[OF eq r]])
qed

theorem rendering_deterministic_witness:
  "transparent sample_formatAmount \<and>
   fst (CartTotals sample_formatAmount scenario_B 0) = fst (CartTotals sample_formatAmount scenario_B 7) \<and>
   fst (CartTotals sample_formatAmount scenario_B (snd (CartTotals sample_formatAmount scenario_B 0))) =
     fst (CartTotals sample_formatAmount scenario_B 0) \<and>
   (\<exists>out. renders sample_formatAmount scenario_B 0 out \<and> renders sample_formatAmount scenario_B 7 out)"
proof -
  note t = rendering_deterministic[OF transparent_sample, of scenario_B 0 7]
  from never_throws_renders[OF never_throws_sample]
  obtain out where r0: "renders sample_formatAmount scenario_B 0 out" ..
  from never_throws_renders[OF never_throws_sample]
  obtain out' where r7: "renders sample_formatAmount scenario_B 7 out'" ..
  from t[THEN conjunct2, THEN conjunct2, THEN spec, THEN spec, THEN mp, OF conjI[OF r0 r7]]
  have "out = out'" by (rule conjunct1)
  with r0 r7 have e: "\<exists>out. renders sample_formatAmount scenario_B 0 out \<and> renders sample_formatAmount scenario_B 7 out"
    by (intro exI[of _ out]) simp
  show ?thesis
    by (rule conjI[OF transparent_sample conjI[OF t[THEN conjunct1] conjI[OF t[THEN conjunct2, THEN conjunct1] e]]])
qed

text \<open>
  The hypothesis is needed: with \<open>ticket_formatAmount\<close>, whose string is the number of the
  call, the same record gives different texts in different worlds.
\<close>

lemma ticket_formatter_not_deterministic:
  "\<not> transparent ticket_formatAmount \<and>
   fst (CartTotals ticket_formatAmount scenario_C 0) \<noteq> fst (CartTotals ticket_formatAmount scenario_C 1)"
proof -
  have "fst (ticket_formatAmount \<lparr>amount = Num 0, region = ''$'', includeTaxes = False\<rparr> 0) \<noteq>
        fst (ticket_formatAmount \<lparr>amount = Num 0, region = ''$'', includeTaxes = False\<rparr> 1)"
    by (simp add: ticket_formatAmount_def decimal.simps)
  then have "\<not> transparent ticket_formatAmount"
    unfolding transparent_def by blast
  moreover have "fst (CartTotals ticket_formatAmount scenario_C 0) \<noteq> fst (CartTotals ticket_formatAmount scenario_C 1)"
    by (simp add: CartTotals_def getAmount_def bindE_def returnE_def ticket_formatAmount_def
        scenario_C_def decimal.simps)
  ultimately show ?thesis ..
qed

text \<open>
  C2. \<open>getAmount\<close> hands \<open>amount || 0\<close> to the formatter: 0 when the amount is \<open>null\<close>,
  \<open>undefined\<close>, zero or \<open>NaN\<close>, and the amount itself for every other number. This is
  \<open>amount ?? 0\<close> for every amount but \<open>NaN\<close>, where \<open>??\<close> would pass \<open>NaN\<close> on.
\<close>

theorem getAmount_passes_amount_or_zero:
  "getAmount formatAmount data f =
     formatAmount \<lparr>amount = or_else f (Num 0), region = region data, includeTaxes = False\<rparr> \<and>
   (or_else f (Num 0) = Num 0) = (f \<in> {Undefined, Null, Number (Num 0), Number NaN}) \<and>
   (Number (or_else f (Num 0)) = f) = (f \<notin> {Undefined, Null, Number NaN}) \<and>
   (or_else f (Num 0) = nullish_coalesce f (Num 0)) = (f \<noteq> Number NaN)"
proof -
  have 1: "getAmount formatAmount data f =
     formatAmount \<lparr>amount = or_else f (Num 0), region = region data, includeTaxes = False\<rparr>"
    by (simp add: getAmount_def)
  have 2: "(or_else f (Num 0) = Num 0) = (f \<in> {Undefined, Null, Number (Num 0), Number NaN})"
  proof (cases f)
    case (Number n)
    then show ?thesis by (cases n) auto
  qed auto
  have 3: "(Number (or_else f (Num 0)) = f) = (f \<notin> {Undefined, Null, Number NaN})"
  proof (cases f)
    case (Number n)
    then show ?thesis by (cases n) auto
  qed auto
  have 4: "(or_else f (Num 0) = nullish_coalesce f (Num 0)) = (f \<noteq> Number NaN)"
  proof (cases f)
    case (Number n)
    then show ?thesis by (cases n) auto
  qed auto
  show ?thesis by (rule conjI[OF 1 conjI[OF 2 conjI[OF 3 4]]])
qed

text \<open>
  As the claim states it (the value handed over is \<open>f ?? 0\<close>, and is 0 exactly when \<open>f\<close> is
  \<open>null\<close> or \<open>undefined\<close>) it fails for a subtotal that is \<open>NaN\<close>: the formatter receives 0,
  and \<open>NaN ?? 0\<close> is \<open>NaN\<close>.
\<close>

theorem NaN_is_not_nullish_coalesced:
  "map amount (calls sample_formatAmount nan_cart 0) = [Num 0, Num 0, Num 0, Num 0] \<and>
   subtotal nan_cart = Number NaN \<and>
   nullish_coalesce (subtotal nan_cart) (Num 0) = NaN \<and>
   hd (map amount (calls sample_formatAmount nan_cart 0)) \<noteq> nullish_coalesce (subtotal nan_cart) (Num 0)"
  by (simp add: calls_never_throws[OF never_throws_sample] nan_cart_def)

section \<open>The specification's scenarios, run\<close>

text \<open>
  Scenarios A and B of the specification, evaluated with \<open>sample_formatAmount\<close>: the rows
  of the tree the component returns, with the result mapped through \<open>rows_of\<close>. A
  formatter that throws ends the component with the thrown value.
\<close>

lemma scenario_A_rows:
  "map_sum id rows_of (fst (CartTotals sample_formatAmount scenario_A 0)) =
     Inr [\<lparr>label = ''Subtotal'', testid = ''cart-subtotal'', raw = Num 1000, shown = ''$1000''\<rparr>,
          \<lparr>label = ''Shipping'', testid = ''cart-shipping'', raw = Num 500, shown = ''$500''\<rparr>,
          \<lparr>label = ''Taxes'', testid = ''cart-taxes'', raw = Num 100, shown = ''$100''\<rparr>,
          \<lparr>label = ''Total'', testid = ''cart-total'', raw = Num 1600, shown = ''$1600''\<rparr>]"
  by (simp add: CartTotals_def getAmount_def bindE_def returnE_def sample_formatAmount_def
      scenario_A_def decimal.simps)

lemma scenario_B_rows:
  "map_sum id rows_of (fst (CartTotals sample_formatAmount scenario_B 0)) =
     Inr [\<lparr>label = ''Subtotal'', testid = ''cart-subtotal'', raw = Num 1000, shown = ''$1000''\<rparr>,
          \<lparr>label = ''Discount'', testid = ''cart-discount'', raw = Num 200, shown = ''- $200''\<rparr>,
          \<lparr>label = ''Shipping'', testid = ''cart-shipping'', raw = Num 0, shown = ''$0''\<rparr>,
          \<lparr>label = ''Taxes'', testid = ''cart-taxes'', raw = Num 80, shown = ''$80''\<rparr>,
          \<lparr>label = ''Total'', testid = ''cart-total'', raw = Num 880, shown = ''$880''\<rparr>]"
  by (simp add: CartTotals_def getAmount_def bindE_def returnE_def sample_formatAmount_def
      scenario_B_def decimal.simps)

lemma throwing_formatter_propagates:
  "fst (CartTotals (\<lambda>a w. (Inl ''unsupported region'', w)) scenario_C (0::nat)) =
     Inl ''unsupported region''"
  by (simp add: CartTotals_def getAmount_def bindE_def)

end
